theory Spec2Isabelle
  imports Complex_Main "HOL-Library.Multiset" "HOL-Library.Monad_Syntax"
begin

section \<open>JavaScript values\<close>

text \<open>
  What \<open>JSON.parse\<close> can return and \<open>JSON.stringify\<close> can write. A TypeScript
  \<open>number\<close> is a real number here: rounding of doubles is not modelled. An object lists
  its properties in order, each name once.
\<close>

datatype json =
    JNull
  | JBool bool
  | JNum real
  | JStr string
  | JArr "json list"
  | JObj "(string \<times> json) list"

text \<open>A value of type \<open>json option\<close> is a JavaScript value that may be \<open>undefined\<close> (\<open>None\<close>).\<close>

fun truthy :: "json \<Rightarrow> bool" where
  "truthy JNull = False"
| "truthy (JBool b) = b"
| "truthy (JNum r) = (r \<noteq> 0)"
| "truthy (JStr s) = (s \<noteq> [])"
| "truthy (JArr vs) = True"
| "truthy (JObj kvs) = True"

fun truthy_opt :: "json option \<Rightarrow> bool" where
  "truthy_opt None = False"
| "truthy_opt (Some v) = truthy v"

text \<open>
  Strings that the program builds from values that are not strings keep the conversion
  symbolic: \<open>ToString v\<close> is \<open>String(v)\<close> and \<open>ToFixed d r\<close> is \<open>r.toFixed(d)\<close>.
\<close>

datatype piece = Lit string | ToString json | ToFixed nat real

type_synonym display = "piece list"

text \<open>
  A value thrown by the program or by the platform. The first three are instances of
  \<open>Error\<close> and carry their message; \<open>NotAnError\<close> is any other thrown value.
\<close>

datatype exn = Error display | TypeError display | SyntaxError display | NotAnError json

text \<open>
  Reading a property. \<open>property v k\<close> is \<open>v.k\<close> for a value \<open>v\<close> that is not \<open>null\<close>; the names
  that the program reads (\<open>version\<close>, \<open>ecosystem\<close>, \<open>species\<close>, \<open>tiles\<close>, \<open>events\<close>,
  \<open>narration\<close>, \<open>detail\<close>, \<open>turn\<close>, \<open>season\<close>, \<open>new_state\<close>, \<open>warnings\<close>) are not properties of
  a number, a string, a boolean or an array. Reading a property of \<open>null\<close> throws a
  \<open>TypeError\<close>, whose message is given in the wording of V8.
\<close>

fun property :: "json \<Rightarrow> string \<Rightarrow> json option" where
  "property (JObj kvs) k = map_of kvs k"
| "property v k = None"

definition null_read :: "string \<Rightarrow> exn" where
  "null_read k =
    TypeError [Lit (''Cannot read properties of null (reading '' @ [CHR 0x27] @ k @ [CHR 0x27] @ '')'')]"

definition get :: "json \<Rightarrow> string \<Rightarrow> exn + json option" where
  "get v k = (if v = JNull then Inl (null_read k) else Inr (property v k))"

text \<open>\<open>v || d\<close>, and a value inside a template literal.\<close>

definition or_else :: "json option \<Rightarrow> json \<Rightarrow> json" where
  "or_else v d = (case v of None \<Rightarrow> d | Some x \<Rightarrow> if truthy x then x else d)"

fun template :: "json option \<Rightarrow> piece" where
  "template None = Lit ''undefined''"
| "template (Some (JStr s)) = Lit s"
| "template (Some v) = ToString v"

text \<open>
  The JSON value of an object literal: \<open>JSON.stringify\<close> leaves out the properties whose
  value is \<open>undefined\<close>.
\<close>

definition JSON_object :: "(string \<times> json option) list \<Rightarrow> json" where
  "JSON_object props = JObj (List.map_filter (\<lambda>(k, v). map_option (Pair k) v) props)"

section \<open>types.ts\<close>

datatype BiomeType = grassland | forest | desert | tundra | wetland | mountain

datatype DietType = herbivore | carnivore | omnivore | producer

record Species =
  name :: string
  population :: real
  diet :: DietType
  prey :: "string list"
  predators :: "string list"
  preferred_biome :: BiomeType
  reproduction_rate :: real
  territory_size :: real

text \<open>
  \<open>SPECIES_ICONS\<close>: the own properties of the object literal, each icon given by its Unicode
  code point.
\<close>

definition SPECIES_ICONS :: "(string \<times> nat) list" where
  "SPECIES_ICONS =
    [(''Grass'', 0x1F33F), (''Oak Tree'', 0x1F333), (''Rabbit'', 0x1F430),
     (''Deer'', 0x1F98C), (''Fox'', 0x1F98A), (''Wolf'', 0x1F43A), (''Hawk'', 0x1F985),
     (''Frog'', 0x1F438), (''Bear'', 0x1F43B), (''default'', 0x1F535)]"

record InterventionRequest =
  action :: string
  details :: "string option"

section \<open>api.ts\<close>

text \<open>
  \<open>fetch\<close> is a parameter of the model: a function from the request to its outcome. A request
  is its path under \<open>API_BASE\<close> and the JSON value of its body; both requests modelled are
  POST requests. A response is its status and the outcome of \<open>response.json()\<close>.
\<close>

record request =
  endpoint :: string
  body :: "json option"

datatype response = Response (status: nat) (json_result: "exn + json")

definition ok :: "response \<Rightarrow> bool" where
  "ok r = (200 \<le> status r \<and> status r \<le> 299)"

datatype fetched = Rejected exn | Resolved response

definition JSON_intervention :: "InterventionRequest \<Rightarrow> json" where
  "JSON_intervention iv =
    JSON_object [(''action'', Some (JStr (action iv))), (''details'', map_option JStr (details iv))]"

definition advance_request :: "InterventionRequest option \<Rightarrow> request" where
  "advance_request intervention =
    \<lparr> endpoint = ''/ecosystem/advance'', body = map_option JSON_intervention intervention \<rparr>"

definition advanceTurn :: "(request \<Rightarrow> fetched) \<Rightarrow> InterventionRequest option \<Rightarrow> exn + json" where
  "advanceTurn fetch intervention =
    (case fetch (advance_request intervention) of
       Rejected e \<Rightarrow> Inl e
     | Resolved response \<Rightarrow>
         if \<not> ok response then Inl (Error [Lit ''Failed to advance turn''])
         else json_result response)"

definition load_request :: "json \<Rightarrow> request" where
  "load_request state = \<lparr> endpoint = ''/ecosystem/load'', body = Some state \<rparr>"

definition loadEcosystem :: "(request \<Rightarrow> fetched) \<Rightarrow> json \<Rightarrow> exn + json" where
  "loadEcosystem fetch state =
    (case fetch (load_request state) of
       Rejected e \<Rightarrow> Inl e
     | Resolved response \<Rightarrow>
         if \<not> ok response then
           (let errorData = (case json_result response of Inl e \<Rightarrow> JObj [] | Inr d \<Rightarrow> d)
            in case get errorData ''detail'' of
                 Inl e \<Rightarrow> Inl e
               | Inr detail \<Rightarrow>
                   Inl (Error (if truthy_opt detail then [template detail]
                               else [Lit ''Server error: '', ToString (JNum (real (status response)))])))
         else json_result response)"

section \<open>App.tsx\<close>

text \<open>
  \<open>new Date()\<close> is the clock reading, a parameter of the model, given by its UTC calendar
  fields (month 1 to 12, day 1 to 31, and so on); \<open>toISOString\<close> writes it with four digits
  for a year from 0 to 9999 and with a sign and six digits otherwise.
\<close>

definition digit :: "nat \<Rightarrow> char" where
  "digit d = ''0123456789'' ! (d mod 10)"

fun pad :: "nat \<Rightarrow> nat \<Rightarrow> string" where
  "pad 0 k = []"
| "pad (Suc w) k = pad w (k div 10) @ [digit k]"

record Date =
  year :: int
  month :: nat
  day :: nat
  hours :: nat
  minutes :: nat
  seconds :: nat
  milliseconds :: nat

definition toISOString :: "Date \<Rightarrow> string" where
  "toISOString d =
    (if 0 \<le> year d \<and> year d \<le> 9999 then pad 4 (nat (year d))
     else (if year d < 0 then ''-'' else ''+'') @ pad 6 (nat \<bar>year d\<bar>))
    @ ''-'' @ pad 2 (month d) @ ''-'' @ pad 2 (day d)
    @ ''T'' @ pad 2 (hours d) @ '':'' @ pad 2 (minutes d) @ '':'' @ pad 2 (seconds d)
    @ ''.'' @ pad 3 (milliseconds d) @ ''Z''"

text \<open>
  The state of the \<open>App\<close> component: one field for each \<open>useState\<close>. A field typed
  \<open>json option\<close> holds whatever value arrived at run time, \<open>None\<close> being \<open>undefined\<close>;
  \<open>error\<close> is \<open>null\<close> (\<open>None\<close>) or a string.
\<close>

record App =
  ecosystem :: "json option"
  isLoading :: bool
  events :: "json option"
  narration :: "json option"
  warnings :: "json option"
  error :: "display option"

definition initial :: App where
  "initial = \<lparr> ecosystem = Some JNull, isLoading = False, events = Some (JArr []),
               narration = Some (JStr ''''), warnings = Some (JArr []), error = None \<rparr>"

text \<open>
  The \<open>try\<close> block of \<open>handleAdvanceTurn\<close>: it returns the exception thrown, if any, and the
  state with the updates made before it.
\<close>

definition advance_try :: "(request \<Rightarrow> fetched) \<Rightarrow> InterventionRequest option \<Rightarrow> App \<Rightarrow> exn option \<times> App" where
  "advance_try fetch intervention st =
    (case advanceTurn fetch intervention of
       Inl e \<Rightarrow> (Some e, st)
     | Inr result \<Rightarrow>
        (case get result ''new_state'' of
           Inl e \<Rightarrow> (Some e, st)
         | Inr new_state \<Rightarrow>
            (case get result ''events'' of
               Inl e \<Rightarrow> (Some e, st\<lparr>ecosystem := new_state\<rparr>)
             | Inr evs \<Rightarrow>
                (case get result ''narration'' of
                   Inl e \<Rightarrow> (Some e, st\<lparr>ecosystem := new_state, events := evs\<rparr>)
                 | Inr nar \<Rightarrow>
                    (case get result ''warnings'' of
                       Inl e \<Rightarrow>
                         (Some e, st\<lparr>ecosystem := new_state, events := evs, narration := nar\<rparr>)
                     | Inr warns \<Rightarrow>
                         (None, st\<lparr>ecosystem := new_state, events := evs, narration := nar,
                                   warnings := warns\<rparr>))))))"

definition handleAdvanceTurn :: "(request \<Rightarrow> fetched) \<Rightarrow> InterventionRequest option \<Rightarrow> App \<Rightarrow> App" where
  "handleAdvanceTurn fetch intervention st =
    (if \<not> truthy_opt (ecosystem st) then st
     else
       (case advance_try fetch intervention (st\<lparr>isLoading := True, error := None\<rparr>) of
          (None, st') \<Rightarrow> st'\<lparr>isLoading := False\<rparr>
        | (Some err, st') \<Rightarrow>
            st'\<lparr>error := Some [Lit ''Failed to advance simulation. Check the backend logs.''],
                isLoading := False\<rparr>))"

text \<open>
  \<open>handleSave\<close> returns the file offered for download, \<open>None\<close> when it returns early. The
  contents are the JSON value of the text written.
\<close>

record download =
  filename :: display
  contents :: json

definition handleSave :: "Date \<Rightarrow> App \<Rightarrow> download option" where
  "handleSave now st =
    (case ecosystem st of
       None \<Rightarrow> None
     | Some eco \<Rightarrow>
         if \<not> truthy eco then None
         else Some
           \<lparr> filename = [Lit ''ecosim-turn'', template (property eco ''turn''), Lit ''-'',
                          template (property eco ''season''), Lit ''.json''],
             contents = JSON_object
               [(''version'', Some (JNum 1)),
                (''savedAt'', Some (JStr (toISOString now))),
                (''ecosystem'', Some eco),
                (''events'', events st),
                (''narration'', narration st)] \<rparr>)"

text \<open>
  The file chosen by the user: \<open>Unreadable e\<close> when \<open>file.text()\<close> rejects with \<open>e\<close>,
  \<open>Malformed\<close> when \<open>JSON.parse\<close> throws on its text, \<open>Document v\<close> when \<open>JSON.parse\<close> returns
  \<open>v\<close>. The file that \<open>handleSave\<close> writes is the document of its contents.
\<close>

datatype File = Unreadable exn | Malformed | Document json

text \<open>The two tests of the format, and the value chosen for loading.\<close>

definition is_save_format :: "json \<Rightarrow> bool" where
  "is_save_format saveData =
    (truthy_opt (property saveData ''version'') \<and> truthy_opt (property saveData ''ecosystem''))"

definition is_raw_state :: "json \<Rightarrow> bool" where
  "is_raw_state saveData =
    (truthy_opt (property saveData ''species'') \<and> truthy_opt (property saveData ''tiles''))"

definition ecosystemToLoad :: "json \<Rightarrow> exn + json" where
  "ecosystemToLoad saveData =
    (if saveData = JNull then Inl (null_read ''version'')
     else if is_save_format saveData then Inr (the (property saveData ''ecosystem''))
     else if is_raw_state saveData then Inr saveData
     else Inl (Error [Lit ''Invalid save file format - missing required data'']))"

text \<open>The \<open>try\<close> block of \<open>handleLoad\<close>, as for \<open>handleAdvanceTurn\<close>.\<close>

definition load_try :: "(request \<Rightarrow> fetched) \<Rightarrow> File \<Rightarrow> App \<Rightarrow> exn option \<times> App" where
  "load_try fetch f st =
    (case f of
       Unreadable e \<Rightarrow> (Some e, st)
     | Malformed \<Rightarrow> (Some (Error [Lit ''Invalid JSON file'']), st)
     | Document saveData \<Rightarrow>
        (case ecosystemToLoad saveData of
           Inl e \<Rightarrow> (Some e, st)
         | Inr eco \<Rightarrow>
            (case loadEcosystem fetch eco of
               Inl e \<Rightarrow> (Some e, st)
             | Inr loadedState \<Rightarrow>
                (case get saveData ''events'' of
                   Inl e \<Rightarrow> (Some e, st\<lparr>ecosystem := Some loadedState\<rparr>)
                 | Inr evs \<Rightarrow>
                    (case get saveData ''narration'' of
                       Inl e \<Rightarrow>
                         (Some e, st\<lparr>ecosystem := Some loadedState,
                                      events := Some (or_else evs (JArr []))\<rparr>)
                     | Inr nar \<Rightarrow>
                         (None, st\<lparr>ecosystem := Some loadedState,
                                   events := Some (or_else evs (JArr [])),
                                   narration := Some (or_else nar (JStr ''Save file loaded successfully!'')),
                                   warnings := Some (JArr [])\<rparr>))))))"

fun errorMessage :: "exn \<Rightarrow> display" where
  "errorMessage (Error m) = m"
| "errorMessage (TypeError m) = m"
| "errorMessage (SyntaxError m) = m"
| "errorMessage (NotAnError v) = [Lit ''Unknown error'']"

definition handleLoad :: "(request \<Rightarrow> fetched) \<Rightarrow> File \<Rightarrow> App \<Rightarrow> App" where
  "handleLoad fetch f st =
    (case load_try fetch f (st\<lparr>isLoading := True, error := None\<rparr>) of
       (None, st') \<Rightarrow> st'\<lparr>isLoading := False\<rparr>
     | (Some err, st') \<Rightarrow>
         st'\<lparr>error := Some (Lit ''Failed to load: '' # errorMessage err), isLoading := False\<rparr>)"

section \<open>components/ControlPanel.tsx\<close>

text \<open>
  The coordinates of the selected tile are integers, written in decimal. \<open>handleAdvance\<close>
  returns the argument of its call of \<open>onAdvanceTurn\<close>, \<open>None\<close> for the call without one.
\<close>

function show_nat :: "nat \<Rightarrow> string" where
  "show_nat n = (if n < 10 then [digit n] else show_nat (n div 10) @ [digit n])"
  by pat_completeness auto
termination
  by (relation "measure id") auto

declare show_nat.simps [simp del]

definition show_int :: "int \<Rightarrow> string" where
  "show_int i = (if i < 0 then ''-'' @ show_nat (nat (- i)) else show_nat (nat i))"

definition handleAdvance :: "(int \<times> int) option \<Rightarrow> string \<Rightarrow> string \<Rightarrow> InterventionRequest option" where
  "handleAdvance selectedTile interventionType selectedOption =
    (if interventionType = [] \<or> selectedOption = [] then None
     else if interventionType = ''introduce_species'' then
       Some \<lparr> action = ''Introduce '' @ selectedOption @ '' to the ecosystem'',
              details = Some (case selectedTile of
                  None \<Rightarrow> []
                | Some (tx, ty) \<Rightarrow> ''at tile ('' @ show_int tx @ '', '' @ show_int ty @ '')'') \<rparr>
     else if interventionType = ''remove_species'' then
       Some \<lparr> action = ''Remove all '' @ selectedOption @ '' from the ecosystem'',
              details = Some [] \<rparr>
     else if interventionType = ''natural_disaster'' then
       Some \<lparr> action = ''Trigger a '' @ selectedOption,
              details = Some (case selectedTile of
                  None \<Rightarrow> []
                | Some (tx, ty) \<Rightarrow>
                    ''centered at tile ('' @ show_int tx @ '', '' @ show_int ty @ '')'') \<rparr>
     else if interventionType = ''change_climate'' then
       Some \<lparr> action = selectedOption @ '' affects the ecosystem'', details = Some [] \<rparr>
     else Some \<lparr> action = [], details = Some [] \<rparr>)"

section \<open>components/SpeciesPanel.tsx\<close>

definition getPopulationColor :: "real \<Rightarrow> DietType \<Rightarrow> string" where
  "getPopulationColor current d =
    (if d = producer then ''text-green-400''
     else if current < 10 then ''text-red-400''
     else if current < 30 then ''text-yellow-400''
     else ''text-zinc-200'')"

definition formatPopulation :: "real \<Rightarrow> display" where
  "formatPopulation pop =
    (if pop \<ge> 10000 then [ToFixed 1 (pop / 1000), Lit ''k'']
     else if pop \<ge> 1000 then [ToFixed 1 (pop / 1000), Lit ''k'']
     else [ToString (JNum pop)])"

fun dietOrder :: "DietType \<Rightarrow> int" where
  "dietOrder producer = 0"
| "dietOrder herbivore = 1"
| "dietOrder omnivore = 2"
| "dietOrder carnivore = 3"

text \<open>
  \<open>Array.prototype.sort\<close> is stable, and the comparator is the difference of two keys, so
  the sorted copy is the stable sort by that key.
\<close>

definition sortedSpecies :: "Species list \<Rightarrow> Species list" where
  "sortedSpecies species = sort_key (\<lambda>s. dietOrder (diet s)) species"

text \<open>
  The value of \<open>SPECIES_ICONS[s.name] || SPECIES_ICONS.default\<close>. \<open>SPECIES_ICONS\<close> is an object
  literal, so a name that is not one of its own properties is looked up in
  \<open>Object.prototype\<close>: the name of one of its methods gives that function, and \<open>__proto__\<close>
  gives \<open>Object.prototype\<close> itself. Both are truthy, so the default icon is used for the
  other names only.
\<close>

datatype icon_value = Emoji nat | Method string | ObjectPrototype

definition Object_prototype_methods :: "string list" where
  "Object_prototype_methods =
    [''constructor'', ''hasOwnProperty'', ''isPrototypeOf'', ''propertyIsEnumerable'',
     ''toLocaleString'', ''toString'', ''valueOf'', ''__defineGetter__'', ''__defineSetter__'',
     ''__lookupGetter__'', ''__lookupSetter__'']"

definition species_icon :: "string \<Rightarrow> icon_value" where
  "species_icon n =
    (case map_of SPECIES_ICONS n of
       Some i \<Rightarrow> Emoji i
     | None \<Rightarrow>
         if n = ''__proto__'' then ObjectPrototype
         else if n \<in> set Object_prototype_methods then Method n
         else Emoji 0x1F535)"

text \<open>One row of the panel: the \<open>div\<close> that the callback of \<open>sortedSpecies.map\<close> returns.\<close>

record entry =
  key :: string
  icon :: icon_value
  isExtinct :: bool
  shown_name :: string
  popColor :: string
  label :: display

definition species_entry :: "Species \<Rightarrow> entry" where
  "species_entry s =
    \<lparr> key = name s,
      icon = species_icon (name s),
      isExtinct = (population s = 0),
      shown_name = name s,
      popColor = getPopulationColor (population s) (diet s),
      label = (if population s = 0 then [Lit ''EXTINCT''] else formatPopulation (population s)) \<rparr>"

text \<open>The rows that the component returns.\<close>

definition SpeciesPanel :: "Species list \<Rightarrow> entry list" where
  "SpeciesPanel species = map species_entry (sortedSpecies species)"

text \<open>
  What React shows of the rows returned. An icon that is a function is left out of its row;
  an icon that is an object, and neither an element nor a collection, makes the render throw
  (the message is React's), and then no row is shown.
\<close>

definition render_rows :: "entry list \<Rightarrow> exn + entry list" where
  "render_rows rows =
    (if \<exists>r \<in> set rows. icon r = ObjectPrototype
     then Inl (Error [Lit (''Objects are not valid as a React child (found: object with keys {}). ''
                @ ''If you meant to render a collection of children, use an array instead.'')])
     else Inr rows)"

section \<open>components/EcosystemViewport.tsx\<close>


section \<open>components/SpeciesMarkers.tsx\<close>

text \<open>
  A diet is one of the four of \<open>DietType\<close>, so the colour \<open>#FFFFFF\<close> for an unknown diet is
  never used. The elevation image is the pixel array of \<open>elevation.png\<close> (four bytes for each pixel) with
  its size; \<open>None\<close> is the array before the image has loaded. A read outside the array is
  \<open>undefined\<close>, and \<open>undefined / 255\<close> is \<open>NaN\<close>: the elevation \<open>None\<close>. \<open>Math.random\<close> is the
  sequence \<open>random\<close>, read at the positions \<open>i\<close>, \<open>i + 1\<close>, ... in the order of the calls.
\<close>

fun DIET_COLORS :: "DietType \<Rightarrow> string" where
  "DIET_COLORS producer = ''#00FF00''"
| "DIET_COLORS herbivore = ''#00BFFF''"
| "DIET_COLORS carnivore = ''#FF0000''"
| "DIET_COLORS omnivore = ''#FF8C00''"

record elevation_image =
  elevationData :: "nat list option"
  width :: nat
  height :: nat

definition getElevationAt :: "elevation_image \<Rightarrow> real \<Rightarrow> real \<Rightarrow> real option" where
  "getElevationAt img u v =
    (case elevationData img of
       None \<Rightarrow> Some 0
     | Some pixels \<Rightarrow>
         if width img = 0 then Some 0
         else
           let clampedU = max 0 (min 1 u);
               clampedV = max 0 (min 1 v);
               px = \<lfloor>clampedU * (real (width img) - 1)\<rfloor>;
               py = \<lfloor>clampedV * (real (height img) - 1)\<rfloor>;
               idx = (py * int (width img) + px) * 4
           in if 0 \<le> idx \<and> idx < int (length pixels)
              then Some (real (pixels ! nat idx) / 255)
              else None)"

record marker =
  position :: "real \<times> real option \<times> real"
  color :: string
  size' :: real

definition dotCount :: "Species \<Rightarrow> int" where
  "dotCount s = min 50 (max 3 \<lfloor>log 10 (population s + 1) * 10\<rfloor>)"

definition clipThreshold :: real where
  "clipThreshold = 0.15"

text \<open>
  The \<open>while\<close> loop that places the dots of one species; \<open>n\<close> is its \<open>dotCount\<close>. The
  comparison \<open>elevation < clipThreshold\<close> is false for \<open>NaN\<close>.
\<close>

function place_loop ::
  "elevation_image \<Rightarrow> (nat \<Rightarrow> real) \<Rightarrow> real \<Rightarrow> real \<times> real \<times> real \<Rightarrow> int \<Rightarrow> string \<Rightarrow> real \<Rightarrow>
   int \<Rightarrow> int \<Rightarrow> marker list \<times> nat \<Rightarrow> marker list \<times> nat" where
  "place_loop img random terrainSize terrainPosition n col sz attempts placed (result, i) =
    (if placed < n \<and> attempts < n * 20 then
       let u = random i;
           v = random (i + 1);
           elevation = getElevationAt img u v
       in if (case elevation of None \<Rightarrow> False | Some e \<Rightarrow> e < clipThreshold)
          then place_loop img random terrainSize terrainPosition n col sz (attempts + 1) placed
                 (result, i + 2)
          else
            let worldX = (u - 0.5) * terrainSize + fst terrainPosition;
                worldZ = (v - 0.5) * terrainSize + snd (snd terrainPosition);
                worldY = map_option (\<lambda>e. fst (snd terrainPosition) + e * 1.0 + 0.1) elevation
            in place_loop img random terrainSize terrainPosition n col sz (attempts + 1)
                 (placed + 1)
                 (result @ [\<lparr> position = (worldX, worldY, worldZ), color = col, size' = sz \<rparr>],
                  i + 2)
     else (result, i))"
  by pat_completeness auto
termination
  by (relation "measure (\<lambda>(img, random, ts, tp, n, col, sz, attempts, placed, acc).
        nat (n * 20 - attempts))") auto

text \<open>The body of the \<open>for\<close> loop over \<open>activeSpecies\<close>, and the \<open>useMemo\<close> callback.\<close>

definition place_dots ::
  "elevation_image \<Rightarrow> (nat \<Rightarrow> real) \<Rightarrow> real \<Rightarrow> real \<times> real \<times> real \<Rightarrow>
   marker list \<times> nat \<Rightarrow> Species \<Rightarrow> marker list \<times> nat" where
  "place_dots img random terrainSize terrainPosition acc s =
    place_loop img random terrainSize terrainPosition (dotCount s) (DIET_COLORS (diet s))
      (0.15 + log 10 (population s + 1) * 0.05) 0 0 acc"

definition markers ::
  "elevation_image \<Rightarrow> (nat \<Rightarrow> real) \<Rightarrow> real \<Rightarrow> real \<times> real \<times> real \<Rightarrow> Species list \<Rightarrow> marker list" where
  "markers img random terrainSize terrainPosition species =
    (if elevationData img = None \<or> width img = 0 then []
     else
       let activeSpecies = filter (\<lambda>s. population s > 0) species
       in fst (foldl (place_dots img random terrainSize terrainPosition) ([], 0) activeSpecies))"

declare place_loop.simps [simp del]

section \<open>types.ts: the ecosystem state and its JSON value\<close>

text \<open>The fields \<open>x\<close> and \<open>y\<close> of a tile are \<open>tile_x\<close> and \<open>tile_y\<close> here.\<close>

record Tile =
  tile_x :: real
  tile_y :: real
  biome :: BiomeType
  elevation :: real
  water_level :: real
  vegetation :: real
  species_present :: "string list"

record EcosystemState =
  turn :: real
  grid_size :: real
  tiles :: "Tile list"
  species :: "Species list"
  season :: string
  temperature :: real
  events_log :: "string list"

fun biome_name :: "BiomeType \<Rightarrow> string" where
  "biome_name grassland = ''grassland''"
| "biome_name forest = ''forest''"
| "biome_name desert = ''desert''"
| "biome_name tundra = ''tundra''"
| "biome_name wetland = ''wetland''"
| "biome_name mountain = ''mountain''"

fun diet_name :: "DietType \<Rightarrow> string" where
  "diet_name herbivore = ''herbivore''"
| "diet_name carnivore = ''carnivore''"
| "diet_name omnivore = ''omnivore''"
| "diet_name producer = ''producer''"

definition JSON_species :: "Species \<Rightarrow> json" where
  "JSON_species s =
    JObj [(''name'', JStr (name s)), (''population'', JNum (population s)),
          (''diet'', JStr (diet_name (diet s))), (''prey'', JArr (map JStr (prey s))),
          (''predators'', JArr (map JStr (predators s))),
          (''preferred_biome'', JStr (biome_name (preferred_biome s))),
          (''reproduction_rate'', JNum (reproduction_rate s)),
          (''territory_size'', JNum (territory_size s))]"

definition JSON_tile :: "Tile \<Rightarrow> json" where
  "JSON_tile t =
    JObj [(''x'', JNum (tile_x t)), (''y'', JNum (tile_y t)),
          (''biome'', JStr (biome_name (biome t))), (''elevation'', JNum (elevation t)),
          (''water_level'', JNum (water_level t)), (''vegetation'', JNum (vegetation t)),
          (''species_present'', JArr (map JStr (species_present t)))]"

definition JSON_state :: "EcosystemState \<Rightarrow> json" where
  "JSON_state S =
    JObj [(''turn'', JNum (turn S)), (''grid_size'', JNum (grid_size S)),
          (''tiles'', JArr (map JSON_tile (tiles S))),
          (''species'', JArr (map JSON_species (species S))),
          (''season'', JStr (season S)), (''temperature'', JNum (temperature S)),
          (''events_log'', JArr (map JStr (events_log S)))]"

section \<open>The backend's load operation\<close>

text \<open>
  Modelled from the spec: the backend (Python, FastAPI) is missing from the sources. It reads
  the request body as an \<open>EcosystemState\<close> of the data model (3): every field present and of
  its type.
\<close>

fun as_number :: "json option \<Rightarrow> real option" where
  "as_number (Some (JNum r)) = Some r"
| "as_number v = None"

fun as_string :: "json option \<Rightarrow> string option" where
  "as_string (Some (JStr s)) = Some s"
| "as_string v = None"

fun as_list :: "(json \<Rightarrow> 'a option) \<Rightarrow> json option \<Rightarrow> 'a list option" where
  "as_list item (Some (JArr vs)) = those (map item vs)"
| "as_list item v = None"

definition as_biome :: "json option \<Rightarrow> BiomeType option" where
  "as_biome v = Option.bind (as_string v)
     (map_of (map (\<lambda>b. (biome_name b, b)) [grassland, forest, desert, tundra, wetland, mountain]))"

definition as_diet :: "json option \<Rightarrow> DietType option" where
  "as_diet v = Option.bind (as_string v)
     (map_of (map (\<lambda>d. (diet_name d, d)) [herbivore, carnivore, omnivore, producer]))"

text \<open>Modelled from the spec: reading a \<open>Species\<close> (3) from JSON; the backend is missing.\<close>

definition parse_species :: "json \<Rightarrow> Species option" where
  "parse_species v = do {
     n \<leftarrow> as_string (property v ''name'');
     p \<leftarrow> as_number (property v ''population'');
     d \<leftarrow> as_diet (property v ''diet'');
     py \<leftarrow> as_list (\<lambda>x. as_string (Some x)) (property v ''prey'');
     pd \<leftarrow> as_list (\<lambda>x. as_string (Some x)) (property v ''predators'');
     b \<leftarrow> as_biome (property v ''preferred_biome'');
     r \<leftarrow> as_number (property v ''reproduction_rate'');
     t \<leftarrow> as_number (property v ''territory_size'');
     Some \<lparr> name = n, population = p, diet = d, prey = py, predators = pd,
            preferred_biome = b, reproduction_rate = r, territory_size = t \<rparr>
   }"

text \<open>Modelled from the spec: reading a \<open>Tile\<close> (3) from JSON; the backend is missing.\<close>

definition parse_tile :: "json \<Rightarrow> Tile option" where
  "parse_tile v = do {
     cx \<leftarrow> as_number (property v ''x'');
     cy \<leftarrow> as_number (property v ''y'');
     b \<leftarrow> as_biome (property v ''biome'');
     e \<leftarrow> as_number (property v ''elevation'');
     w \<leftarrow> as_number (property v ''water_level'');
     g \<leftarrow> as_number (property v ''vegetation'');
     sp \<leftarrow> as_list (\<lambda>x. as_string (Some x)) (property v ''species_present'');
     Some \<lparr> tile_x = cx, tile_y = cy, biome = b, elevation = e, water_level = w,
            vegetation = g, species_present = sp \<rparr>
   }"

text \<open>
  Modelled from the spec: reading an \<open>EcosystemState\<close> (3) from JSON; the backend is missing.
\<close>

definition parse_state :: "json \<Rightarrow> EcosystemState option" where
  "parse_state v = do {
     t \<leftarrow> as_number (property v ''turn'');
     g \<leftarrow> as_number (property v ''grid_size'');
     ts \<leftarrow> as_list parse_tile (property v ''tiles'');
     ss \<leftarrow> as_list parse_species (property v ''species'');
     se \<leftarrow> as_string (property v ''season'');
     te \<leftarrow> as_number (property v ''temperature'');
     el \<leftarrow> as_list (\<lambda>x. as_string (Some x)) (property v ''events_log'');
     Some \<lparr> turn = t, grid_size = g, tiles = ts, species = ss, season = se,
            temperature = te, events_log = el \<rparr>
   }"

text \<open>
  Modelled from the spec: the Trophic Graph Validator (4.2), which is missing from the sources,
  with the numeric domains of the data model (3). \<open>None\<close> is \<open>ok\<close>, \<open>Some reason\<close> a
  \<open>GraphError\<close>. Tile coordinates run from 0 to \<open>grid_size - 1\<close>.
\<close>

definition is_integer :: "real \<Rightarrow> bool" where
  "is_integer r = (of_int \<lfloor>r\<rfloor> = r)"

definition grid_coordinates :: "nat \<Rightarrow> (real \<times> real) list" where
  "grid_coordinates n = concat (map (\<lambda>i. map (\<lambda>j. (real i, real j)) [0..<n]) [0..<n])"

text \<open>
  Modelled from the spec: the check that all numeric fields are within their documented
  domains (4.2, 3); the validator is missing from the sources.
\<close>

definition numeric_domains :: "EcosystemState \<Rightarrow> bool" where
  "numeric_domains S =
    (0 \<le> turn S \<and> is_integer (turn S) \<and> 0 < grid_size S \<and> is_integer (grid_size S)
     \<and> (\<forall>t \<in> set (tiles S). 0 \<le> elevation t \<and> elevation t \<le> 100 \<and> 0 \<le> water_level t
           \<and> 0 \<le> vegetation t \<and> vegetation t \<le> 100)
     \<and> (\<forall>s \<in> set (species S). 0 \<le> population s \<and> is_integer (population s)
           \<and> 0 < reproduction_rate s \<and> 0 < territory_size s))"

text \<open>
  Modelled from the spec: \<open>validate\<close> (4.2), missing from the sources. Its checks, in the
  order of the spec: unique species names; unique tile coordinates covering the full grid;
  every prey or predator reference resolves; prey and predator sets are symmetric; producers
  have empty prey; numeric domains.
\<close>

definition validate :: "EcosystemState \<Rightarrow> string option" where
  "validate S =
    (let names = map name (species S);
         coordinates = map (\<lambda>t. (tile_x t, tile_y t)) (tiles S)
     in if \<not> distinct names then Some ''duplicate species name''
        else if \<not> (distinct coordinates
                    \<and> set coordinates = set (grid_coordinates (nat \<lfloor>grid_size S\<rfloor>)))
        then Some ''tiles do not cover the grid''
        else if \<not> (\<forall>s \<in> set (species S). set (prey s) \<subseteq> set names \<and> set (predators s) \<subseteq> set names)
        then Some ''reference to an unknown species''
        else if \<not> (\<forall>a \<in> set (species S). \<forall>b \<in> set (species S).
                      (name b \<in> set (prey a)) = (name a \<in> set (predators b)))
        then Some ''prey and predators do not agree''
        else if \<not> (\<forall>s \<in> set (species S). diet s = producer \<longrightarrow> prey s = [])
        then Some ''producer with prey''
        else if \<not> numeric_domains S then Some ''numeric field outside its domain''
        else None)"

text \<open>
  Modelled from the spec: the Serialization Layer's \<open>load\<close> (4.7), which is missing from the
  sources. The second argument is the state of the Session Store, returned as the second
  component: a load that fails leaves it as it was.
\<close>

definition load :: "EcosystemState \<Rightarrow> EcosystemState \<Rightarrow> (string + EcosystemState) \<times> EcosystemState" where
  "load document current =
    (case validate document of
       Some reason \<Rightarrow> (Inl reason, current)
     | None \<Rightarrow> (Inr document, document))"

text \<open>
  Modelled from the spec: the document of the HTTP operation \<open>load\<close> (6), missing from the
  sources, is an \<open>EcosystemState\<close> or a \<open>SaveFile\<close>, told apart by the \<open>version\<close> wrapper.
\<close>

definition parse_document :: "json \<Rightarrow> EcosystemState option" where
  "parse_document document =
    (if property document ''version'' \<noteq> None
     then Option.bind (property document ''ecosystem'') parse_state
     else parse_state document)"

text \<open>
  Modelled from the spec: the HTTP operation \<open>load\<close> (6), missing from the sources. It answers
  with the state installed, or with an error that carries the reason as \<open>detail\<close>. The status
  codes are those FastAPI uses; the client only tests \<open>response.ok\<close> and reads \<open>detail\<close>.
\<close>

definition load_endpoint :: "EcosystemState \<Rightarrow> request \<Rightarrow> response" where
  "load_endpoint current req =
    (case Option.bind (body req) parse_document of
       None \<Rightarrow> Response 422 (Inr (JObj [(''detail'', JStr ''not an ecosystem state'')]))
     | Some document \<Rightarrow>
        (case fst (load document current) of
           Inl reason \<Rightarrow> Response 400 (Inr (JObj [(''detail'', JStr reason)]))
         | Inr S \<Rightarrow> Response 200 (Inr (JSON_state S))))"

section \<open>The claims as worded\<close>

text \<open>
  Format detection by the presence of fields, as the spec words it; the shape of an
  intervention as the spec gives it; the format of an ISO-8601 timestamp as ECMAScript
  writes it (\<open>d\<close> stands for a digit).
\<close>

definition detects_by_presence :: "json \<Rightarrow> bool" where
  "detects_by_presence document =
    (if property document ''version'' \<noteq> None \<and> property document ''ecosystem'' \<noteq> None
     then ecosystemToLoad document = Inr (the (property document ''ecosystem''))
     else if property document ''species'' \<noteq> None \<and> property document ''tiles'' \<noteq> None
     then ecosystemToLoad document = Inr document
     else ecosystemToLoad document
        = Inl (Error [Lit ''Invalid save file format - missing required data'']))"

definition kind_payload_shape :: "json \<Rightarrow> bool" where
  "kind_payload_shape v =
    (case v of
       JObj kvs \<Rightarrow>
         (case (map_of kvs ''kind'', map_of kvs ''payload'') of
            (Some (JStr k), Some (JObj p)) \<Rightarrow> set (map fst kvs) = {''kind'', ''payload''}
          | _ \<Rightarrow> False)
     | _ \<Rightarrow> False)"

definition is_digit :: "char \<Rightarrow> bool" where
  "is_digit c = (c \<in> set ''0123456789'')"

fun matches :: "string \<Rightarrow> string \<Rightarrow> bool" where
  "matches [] [] = True"
| "matches (p # ps) (c # cs) = ((if p = CHR ''d'' then is_digit c else c = p) \<and> matches ps cs)"
| "matches ps cs = False"

definition iso8601 :: "string \<Rightarrow> bool" where
  "iso8601 s =
    (matches ''dddd-dd-ddTdd:dd:dd.dddZ'' s \<or> matches ''+dddddd-dd-ddTdd:dd:dd.dddZ'' s
     \<or> matches ''-dddddd-dd-ddTdd:dd:dd.dddZ'' s)"

section \<open>Example inputs\<close>

definition fox0 :: Species where
  "fox0 = \<lparr> name = ''Fox'', population = 0, diet = carnivore, prey = [''Rabbit''],
            predators = [], preferred_biome = forest, reproduction_rate = 0.2,
            territory_size = 4 \<rparr>"

definition grass1000 :: Species where
  "grass1000 = \<lparr> name = ''Grass'', population = 1000, diet = producer, prey = [],
                 predators = [''Rabbit''], preferred_biome = grassland,
                 reproduction_rate = 0.5, territory_size = 0.01 \<rparr>"

definition proto0 :: Species where
  "proto0 = \<lparr> name = ''__proto__'', population = 0, diet = herbivore, prey = [''Grass''],
              predators = [], preferred_biome = grassland, reproduction_rate = 0.3,
              territory_size = 1 \<rparr>"


definition rabbit9 :: Species where
  "rabbit9 = \<lparr> name = ''Rabbit'', population = 9, diet = herbivore, prey = [''Grass''],
               predators = [''Fox''], preferred_biome = grassland, reproduction_rate = 0.4,
               territory_size = 0.5 \<rparr>"

definition white_pixel :: elevation_image where
  "white_pixel = \<lparr> elevationData = Some [255, 255, 255, 255], width = 1, height = 1 \<rparr>"

definition null_ecosystem_file :: json where
  "null_ecosystem_file = JObj [(''version'', JNum 1), (''ecosystem'', JNull)]"

definition meadow_tile :: Tile where
  "meadow_tile = \<lparr> tile_x = 0, tile_y = 0, biome = grassland, elevation = 10, water_level = 1,
                   vegetation = 80, species_present = [''Grass'', ''Rabbit''] \<rparr>"

definition meadow :: EcosystemState where
  "meadow = \<lparr> turn = 3, grid_size = 1, tiles = [meadow_tile],
              species = [grass1000, rabbit9, fox0], season = ''summer'', temperature = 18.5,
              events_log = [''The foxes died out''] \<rparr>"

definition noon :: Date where
  "noon = \<lparr> year = 2026, month = 1, day = 15, hours = 12, minutes = 30, seconds = 45,
            milliseconds = 123 \<rparr>"

definition saved_meadow :: App where
  "saved_meadow = initial\<lparr>ecosystem := Some (JSON_state meadow)\<rparr>"

definition meadow_backend :: "request \<Rightarrow> fetched" where
  "meadow_backend req = Resolved (load_endpoint meadow req)"

definition refusing_backend :: "request \<Rightarrow> fetched" where
  "refusing_backend req = Resolved (Response 400 (Inr (JObj [(''detail'', JStr ''producer with prey'')])))"

definition offline :: "request \<Rightarrow> fetched" where
  "offline req = Rejected (TypeError [Lit ''Failed to fetch''])"

definition quiet_turn :: json where
  "quiet_turn = JObj [(''new_state'', JSON_state meadow), (''events'', JArr []),
                      (''narration'', JStr ''A quiet turn.''), (''warnings'', JArr [])]"

definition advancing_backend :: "request \<Rightarrow> fetched" where
  "advancing_backend req = Resolved (Response 200 (Inr quiet_turn))"

definition raw_file :: json where
  "raw_file = JObj [(''species'', JArr []), (''tiles'', JArr [])]"

definition wrapped_file :: json where
  "wrapped_file = JObj [(''version'', JNum 1), (''ecosystem'', raw_file)]"

definition empty_file :: json where
  "empty_file = JObj []"

definition wolf_intervention :: InterventionRequest where
  "wolf_intervention = \<lparr> action = ''Introduce Wolf to the ecosystem'',
                          details = Some ''at tile (2, 3)'' \<rparr>"

section \<open>Theorems\<close>

subsection \<open>Timestamps\<close>

lemma is_digit_digit: "is_digit (digit k)"
proof -
  have "k mod 10 < length ''0123456789''" by simp
  then show ?thesis unfolding is_digit_def digit_def by (rule nth_mem)
qed

lemma matches_digit: "is_digit c \<Longrightarrow> matches (CHR ''d'' # ps) (c # cs) = matches ps cs"
  by simp

lemma matches_pad: "matches (replicate w (CHR ''d'') @ ps) (pad w k @ cs) = matches ps cs"
proof (induction w arbitrary: k ps cs)
  case 0
  show ?case by simp
next
  case (Suc w)
  have "matches (replicate (Suc w) (CHR ''d'') @ ps) (pad (Suc w) k @ cs)
      = matches (replicate w (CHR ''d'') @ (CHR ''d'' # ps)) (pad w (k div 10) @ (digit k # cs))"
    by (simp add: replicate_app_Cons_same)
  also have "\<dots> = matches (CHR ''d'' # ps) (digit k # cs)"
    by (rule Suc.IH)
  also have "\<dots> = matches ps cs"
    by (rule matches_digit [OF is_digit_digit])
  finally show ?case .
qed

lemma time_of_day:
  "matches ''-dd-ddTdd:dd:dd.dddZ''
     (''-'' @ pad 2 mo @ ''-'' @ pad 2 dy @ ''T'' @ pad 2 h @ '':'' @ pad 2 mi @ '':'' @ pad 2 s
      @ ''.'' @ pad 3 ms @ ''Z'')"
proof -
  have p: "''-dd-ddTdd:dd:dd.dddZ''
      = ''-'' @ replicate 2 (CHR ''d'') @ ''-'' @ replicate 2 (CHR ''d'') @ ''T''
        @ replicate 2 (CHR ''d'') @ '':'' @ replicate 2 (CHR ''d'') @ '':''
        @ replicate 2 (CHR ''d'') @ ''.'' @ replicate 3 (CHR ''d'') @ ''Z''"
    by (simp add: numeral_eq_Suc)
  show ?thesis
    unfolding p
    by (simp only: append_Cons append_Nil matches_pad matches.simps char.inject simp_thms if_False)
qed

lemma iso8601_toISOString: "iso8601 (toISOString d)"
proof (cases "0 \<le> year d \<and> year d \<le> 9999")
  case True
  have "matches (replicate 4 (CHR ''d'') @ ''-dd-ddTdd:dd:dd.dddZ'')
     (pad 4 (nat (year d)) @ (''-'' @ pad 2 (month d) @ ''-'' @ pad 2 (day d) @ ''T''
      @ pad 2 (hours d) @ '':'' @ pad 2 (minutes d) @ '':'' @ pad 2 (seconds d)
      @ ''.'' @ pad 3 (milliseconds d) @ ''Z''))"
    unfolding matches_pad by (rule time_of_day)
  moreover have "replicate 4 (CHR ''d'') @ ''-dd-ddTdd:dd:dd.dddZ'' = ''dddd-dd-ddTdd:dd:dd.dddZ''"
    by (simp add: numeral_eq_Suc)
  moreover have "toISOString d = pad 4 (nat (year d)) @ (''-'' @ pad 2 (month d) @ ''-'' @ pad 2 (day d) @ ''T''
      @ pad 2 (hours d) @ '':'' @ pad 2 (minutes d) @ '':'' @ pad 2 (seconds d)
      @ ''.'' @ pad 3 (milliseconds d) @ ''Z'')"
    using True by (simp add: toISOString_def)
  ultimately have "matches ''dddd-dd-ddTdd:dd:dd.dddZ'' (toISOString d)"
    by (simp only:)
  then show ?thesis by (simp add: iso8601_def)
next
  case False
  have m: "matches (replicate 6 (CHR ''d'') @ ''-dd-ddTdd:dd:dd.dddZ'')
     (pad 6 (nat \<bar>year d\<bar>) @ (''-'' @ pad 2 (month d) @ ''-'' @ pad 2 (day d) @ ''T''
      @ pad 2 (hours d) @ '':'' @ pad 2 (minutes d) @ '':'' @ pad 2 (seconds d)
      @ ''.'' @ pad 3 (milliseconds d) @ ''Z''))"
    unfolding matches_pad by (rule time_of_day)
  have r: "replicate 6 (CHR ''d'') @ ''-dd-ddTdd:dd:dd.dddZ'' = ''dddddd-dd-ddTdd:dd:dd.dddZ''"
    by (simp add: numeral_eq_Suc)
  show ?thesis
  proof (cases "year d < 0")
    case True
    then have "toISOString d = CHR ''-'' # (pad 6 (nat \<bar>year d\<bar>) @ (''-'' @ pad 2 (month d) @ ''-'' @ pad 2 (day d) @ ''T''
      @ pad 2 (hours d) @ '':'' @ pad 2 (minutes d) @ '':'' @ pad 2 (seconds d)
      @ ''.'' @ pad 3 (milliseconds d) @ ''Z''))"
      by (simp add: toISOString_def)
    moreover have "''-dddddd-dd-ddTdd:dd:dd.dddZ'' = CHR ''-'' # ''dddddd-dd-ddTdd:dd:dd.dddZ''"
      by simp
    ultimately have "matches ''-dddddd-dd-ddTdd:dd:dd.dddZ'' (toISOString d)"
      using m unfolding r by (simp only: matches.simps char.inject simp_thms if_False)
    then show ?thesis by (simp only: iso8601_def simp_thms)
  next
    case pos: False
    then have "toISOString d = CHR ''+'' # (pad 6 (nat \<bar>year d\<bar>) @ (''-'' @ pad 2 (month d) @ ''-'' @ pad 2 (day d) @ ''T''
      @ pad 2 (hours d) @ '':'' @ pad 2 (minutes d) @ '':'' @ pad 2 (seconds d)
      @ ''.'' @ pad 3 (milliseconds d) @ ''Z''))"
      using False by (simp add: toISOString_def)
    moreover have "''+dddddd-dd-ddTdd:dd:dd.dddZ'' = CHR ''+'' # ''dddddd-dd-ddTdd:dd:dd.dddZ''"
      by simp
    ultimately have "matches ''+dddddd-dd-ddTdd:dd:dd.dddZ'' (toISOString d)"
      using m unfolding r by (simp only: matches.simps char.inject simp_thms if_False)
    then show ?thesis by (simp only: iso8601_def simp_thms)
  qed
qed

subsection \<open>handleLoad and handleSave\<close>

lemma load_try_format_error:
  "ecosystemToLoad document = Inl e \<Longrightarrow> load_try fetch (Document document) st = (Some e, st)"
  by (simp add: load_try_def)

lemma get_not_null: "v \<noteq> JNull \<Longrightarrow> get v k = Inr (property v k)"
  by (simp add: get_def)

lemma ecosystemToLoad_not_null: "ecosystemToLoad document = Inr eco \<Longrightarrow> document \<noteq> JNull"
  by (auto simp: ecosystemToLoad_def)

lemma load_try_server_error:
  "ecosystemToLoad document = Inr eco \<Longrightarrow> loadEcosystem fetch eco = Inl e \<Longrightarrow>
   load_try fetch (Document document) st = (Some e, st)"
  by (simp add: load_try_def)

lemma load_try_success:
  "ecosystemToLoad document = Inr eco \<Longrightarrow> loadEcosystem fetch eco = Inr loadedState \<Longrightarrow>
   load_try fetch (Document document) st =
     (None, st\<lparr>ecosystem := Some loadedState,
               events := Some (or_else (property document ''events'') (JArr [])),
               narration := Some (or_else (property document ''narration'')
                              (JStr ''Save file loaded successfully!'')),
               warnings := Some (JArr [])\<rparr>)"
  by (frule ecosystemToLoad_not_null) (simp add: load_try_def get_not_null)

lemma handleLoad_failure:
  "load_try fetch f (st\<lparr>isLoading := True, error := None\<rparr>)
     = (Some e, st\<lparr>isLoading := True, error := None\<rparr>) \<Longrightarrow>
   handleLoad fetch f st
     = st\<lparr>isLoading := False, error := Some (Lit ''Failed to load: '' # errorMessage e)\<rparr>"
  by (simp add: handleLoad_def)

lemma loadEcosystem_fails:
  assumes "fetch (load_request state) = Rejected e0
     \<or> (fetch (load_request state) = Resolved r \<and> (\<not> ok r \<or> json_result r = Inl e1))"
  shows "\<exists>err. loadEcosystem fetch state = Inl err"
  using assms
  by (auto simp: loadEcosystem_def get_def Let_def split: sum.splits)

lemma loadEcosystem_detail:
  assumes "fetch (load_request state) = Resolved r" and "\<not> ok r"
    and "json_result r = Inr errorData" and "property errorData ''detail'' = Some (JStr detail)"
    and "detail \<noteq> []"
  shows "loadEcosystem fetch state = Inl (Error [Lit detail])"
proof -
  have "errorData \<noteq> JNull" using assms(4) by auto
  then show ?thesis using assms by (simp add: loadEcosystem_def get_def)
qed

lemma those_map_inverse: "(\<And>x. f (g x) = Some x) \<Longrightarrow> those (map (f \<circ> g) xs) = Some xs"
  by (induction xs) simp_all

lemma those_strings: "those (map ((\<lambda>x. as_string (Some x)) \<circ> JStr) xs) = Some xs"
  by (rule those_map_inverse) simp

lemma as_biome_name: "as_biome (Some (JStr (biome_name b))) = Some b"
  by (cases b) (simp_all add: as_biome_def)

lemma as_diet_name: "as_diet (Some (JStr (diet_name d))) = Some d"
  by (cases d) (simp_all add: as_diet_def)

lemma parse_species_JSON: "parse_species (JSON_species s) = Some s"
  by (simp add: parse_species_def JSON_species_def those_strings as_biome_name as_diet_name)

lemma parse_tile_JSON: "parse_tile (JSON_tile t) = Some t"
  by (simp add: parse_tile_def JSON_tile_def those_strings as_biome_name)

lemma parse_state_JSON: "parse_state (JSON_state S) = Some S"
  by (simp add: parse_state_def JSON_state_def those_strings
      those_map_inverse [of parse_species JSON_species, OF parse_species_JSON]
      those_map_inverse [of parse_tile JSON_tile, OF parse_tile_JSON])

lemma JSON_state_is_object [simp]:
  "property (JSON_state S) ''version'' = None"
  "truthy (JSON_state S)"
  by (simp_all add: JSON_state_def)

lemma load_endpoint_valid:
  assumes "validate S = None"
  shows "load_endpoint current (load_request (JSON_state S)) = Response 200 (Inr (JSON_state S))"
  using assms
  by (simp add: load_endpoint_def load_request_def parse_document_def parse_state_JSON load_def)

lemma loadEcosystem_valid:
  assumes "validate S = None"
    and "fetch (load_request (JSON_state S))
          = Resolved (load_endpoint current (load_request (JSON_state S)))"
  shows "loadEcosystem fetch (JSON_state S) = Inr (JSON_state S)"
  by (simp add: loadEcosystem_def assms(2) load_endpoint_valid [OF assms(1)] ok_def)

lemma handleSave_contents:
  assumes "ecosystem st = Some eco" and "truthy eco"
  shows "\<exists>d. handleSave now st = Some d \<and> contents d \<noteq> JNull
     \<and> property (contents d) ''version'' = Some (JNum 1)
     \<and> property (contents d) ''ecosystem'' = Some eco
     \<and> property (contents d) ''events'' = events st
     \<and> property (contents d) ''narration'' = narration st"
  using assms
  by (cases "events st"; cases "narration st")
     (simp_all add: handleSave_def JSON_object_def List.map_filter_simps)

text \<open>
  Claim C1. Round trip: when the validator accepts the state \<open>S\<close> and the backend's load
  operation is the one of the spec, saving the state \<open>S\<close> writes a file whose \<open>ecosystem\<close>
  field is \<open>S\<close>, and loading that file installs \<open>S\<close> again, field for field.
\<close>

theorem save_load_round_trip:
  assumes "validate S = None"
    and "fetch (load_request (JSON_state S))
          = Resolved (load_endpoint current (load_request (JSON_state S)))"
    and "ecosystem st = Some (JSON_state S)"
  shows "\<exists>d. handleSave now st = Some d
     \<and> property (contents d) ''ecosystem'' = Some (JSON_state S)
     \<and> ecosystem (handleLoad fetch (Document (contents d)) st') = Some (JSON_state S)
     \<and> Option.bind (ecosystem (handleLoad fetch (Document (contents d)) st')) parse_state = Some S"
proof -
  obtain d where d: "handleSave now st = Some d" "contents d \<noteq> JNull"
      "property (contents d) ''version'' = Some (JNum 1)"
      "property (contents d) ''ecosystem'' = Some (JSON_state S)"
    using handleSave_contents [OF assms(3), of now] by auto
  have "is_save_format (contents d)"
    by (simp add: is_save_format_def d)
  then have e: "ecosystemToLoad (contents d) = Inr (JSON_state S)"
    by (simp add: ecosystemToLoad_def d)
  have l: "loadEcosystem fetch (JSON_state S) = Inr (JSON_state S)"
    using assms(1,2) by (rule loadEcosystem_valid)
  have "ecosystem (handleLoad fetch (Document (contents d)) st') = Some (JSON_state S)"
    by (simp add: handleLoad_def load_try_success [OF e l])
  then show ?thesis using d by (simp add: parse_state_JSON)
qed

lemma validate_meadow: "validate meadow = None"
  by (simp add: validate_def meadow_def meadow_tile_def grass1000_def rabbit9_def fox0_def
      numeric_domains_def is_integer_def grid_coordinates_def)

theorem save_load_round_trip_witness:
  "validate meadow = None
   \<and> meadow_backend (load_request (JSON_state meadow))
       = Resolved (load_endpoint meadow (load_request (JSON_state meadow)))
   \<and> ecosystem saved_meadow = Some (JSON_state meadow)
   \<and> (\<exists>d. handleSave noon saved_meadow = Some d
        \<and> ecosystem (handleLoad meadow_backend (Document (contents d)) initial)
            = Some (JSON_state meadow))"
proof -
  have a: "validate meadow = None" by (rule validate_meadow)
  have b: "meadow_backend (load_request (JSON_state meadow))
       = Resolved (load_endpoint meadow (load_request (JSON_state meadow)))"
    by (simp add: meadow_backend_def)
  have c: "ecosystem saved_meadow = Some (JSON_state meadow)"
    by (simp add: saved_meadow_def)
  show ?thesis
    using a b c save_load_round_trip [of meadow meadow_backend meadow saved_meadow noon initial]
    by blast
qed

text \<open>
  Claim C2, as worded, fails: a file with a \<open>version\<close> field and an \<open>ecosystem\<close> field that
  is \<open>null\<close> is rejected, not loaded.
\<close>

theorem format_detection_counterexample:
  "\<not> detects_by_presence null_ecosystem_file"
  by (simp add: detects_by_presence_def null_ecosystem_file_def ecosystemToLoad_def
      is_save_format_def is_raw_state_def)

text \<open>
  Claim C2, amended. For a parsed document other than \<open>null\<close>: when its \<open>version\<close> and
  \<open>ecosystem\<close> fields are both truthy, the \<open>ecosystem\<close> field is the state loaded; otherwise,
  when its \<open>species\<close> and \<open>tiles\<close> fields are both truthy, the document itself is; otherwise
  loading fails with the message about an invalid save file format. The state loaded is the
  one sent to the backend, whose answer is installed.
\<close>

theorem format_detection:
  assumes "document \<noteq> JNull"
  shows "(is_save_format document \<longrightarrow>
            (\<exists>eco. property document ''ecosystem'' = Some eco \<and> ecosystemToLoad document = Inr eco))
     \<and> (\<not> is_save_format document \<and> is_raw_state document \<longrightarrow>
            ecosystemToLoad document = Inr document)
     \<and> (\<not> is_save_format document \<and> \<not> is_raw_state document \<longrightarrow>
            ecosystemToLoad document
              = Inl (Error [Lit ''Invalid save file format - missing required data''])
            \<and> error (handleLoad fetch (Document document) st)
              = Some [Lit ''Failed to load: '',
                      Lit ''Invalid save file format - missing required data''])
     \<and> (\<forall>eco. ecosystemToLoad document = Inr eco \<longrightarrow>
            ecosystem (handleLoad fetch (Document document) st)
              = (case loadEcosystem fetch eco of
                   Inr loadedState \<Rightarrow> Some loadedState
                 | Inl e \<Rightarrow> ecosystem st))"
proof -
  have a: "is_save_format document \<longrightarrow>
      (\<exists>eco. property document ''ecosystem'' = Some eco \<and> ecosystemToLoad document = Inr eco)"
  proof
    assume s: "is_save_format document"
    then obtain eco where "property document ''ecosystem'' = Some eco"
      by (cases "property document ''ecosystem''") (auto simp: is_save_format_def)
    then show "\<exists>eco. property document ''ecosystem'' = Some eco \<and> ecosystemToLoad document = Inr eco"
      using s assms by (simp add: ecosystemToLoad_def)
  qed
  have b: "\<not> is_save_format document \<and> is_raw_state document \<longrightarrow>
      ecosystemToLoad document = Inr document"
    using assms by (simp add: ecosystemToLoad_def)
  have c: "\<not> is_save_format document \<and> \<not> is_raw_state document \<longrightarrow>
      ecosystemToLoad document
        = Inl (Error [Lit ''Invalid save file format - missing required data''])
      \<and> error (handleLoad fetch (Document document) st)
        = Some [Lit ''Failed to load: '',
                Lit ''Invalid save file format - missing required data'']"
  proof
    assume n: "\<not> is_save_format document \<and> \<not> is_raw_state document"
    then have e: "ecosystemToLoad document
        = Inl (Error [Lit ''Invalid save file format - missing required data''])"
      using assms by (simp add: ecosystemToLoad_def)
    show "ecosystemToLoad document
        = Inl (Error [Lit ''Invalid save file format - missing required data''])
      \<and> error (handleLoad fetch (Document document) st)
        = Some [Lit ''Failed to load: '',
                Lit ''Invalid save file format - missing required data'']"
      by (simp add: e handleLoad_def load_try_format_error [OF e])
  qed
  have d: "\<forall>eco. ecosystemToLoad document = Inr eco \<longrightarrow>
      ecosystem (handleLoad fetch (Document document) st)
        = (case loadEcosystem fetch eco of
             Inr loadedState \<Rightarrow> Some loadedState
           | Inl e \<Rightarrow> ecosystem st)"
  proof (intro allI impI)
    fix eco assume e: "ecosystemToLoad document = Inr eco"
    show "ecosystem (handleLoad fetch (Document document) st)
        = (case loadEcosystem fetch eco of
             Inr loadedState \<Rightarrow> Some loadedState
           | Inl e \<Rightarrow> ecosystem st)"
    proof (cases "loadEcosystem fetch eco")
      case (Inl x)
      then show ?thesis by (simp add: handleLoad_def load_try_server_error [OF e Inl])
    next
      case (Inr loadedState)
      then show ?thesis by (simp add: handleLoad_def load_try_success [OF e Inr])
    qed
  qed
  show ?thesis using a b c d by blast
qed

theorem format_detection_witness:
  "wrapped_file \<noteq> JNull \<and> is_save_format wrapped_file
   \<and> ecosystemToLoad wrapped_file = Inr raw_file
   \<and> raw_file \<noteq> JNull \<and> \<not> is_save_format raw_file \<and> is_raw_state raw_file
   \<and> ecosystemToLoad raw_file = Inr raw_file
   \<and> empty_file \<noteq> JNull \<and> \<not> is_save_format empty_file \<and> \<not> is_raw_state empty_file
   \<and> ecosystemToLoad empty_file
       = Inl (Error [Lit ''Invalid save file format - missing required data''])
   \<and> error (handleLoad offline (Document empty_file) saved_meadow)
       = Some [Lit ''Failed to load: '', Lit ''Invalid save file format - missing required data'']"
proof -
  have w: "wrapped_file \<noteq> JNull" "is_save_format wrapped_file"
      "property wrapped_file ''ecosystem'' = Some raw_file"
    by (simp_all add: wrapped_file_def is_save_format_def raw_file_def)
  have r: "raw_file \<noteq> JNull" "\<not> is_save_format raw_file" "is_raw_state raw_file"
    by (simp_all add: raw_file_def is_save_format_def is_raw_state_def)
  have e: "empty_file \<noteq> JNull" "\<not> is_save_format empty_file" "\<not> is_raw_state empty_file"
    by (simp_all add: empty_file_def is_save_format_def is_raw_state_def)
  obtain eco where "property wrapped_file ''ecosystem'' = Some eco"
      "ecosystemToLoad wrapped_file = Inr eco"
    using format_detection [OF w(1), of offline saved_meadow] w(2) by blast
  then have a: "ecosystemToLoad wrapped_file = Inr raw_file"
    using w(3) by simp
  have b: "ecosystemToLoad raw_file = Inr raw_file"
    using format_detection [OF r(1), of offline saved_meadow] r(2,3) by blast
  have c: "ecosystemToLoad empty_file
       = Inl (Error [Lit ''Invalid save file format - missing required data''])
     \<and> error (handleLoad offline (Document empty_file) saved_meadow)
       = Some [Lit ''Failed to load: '', Lit ''Invalid save file format - missing required data'']"
    using format_detection [OF e(1), of offline saved_meadow] e(2,3) by blast
  show ?thesis
    using w(1,2) r e a b c by blast
qed

text \<open>
  Claim C3. A file that is not JSON, or whose document is of neither format, leaves the
  ecosystem, the events, the narration and the warnings as they were, and sets the error to
  a message that names the cause.
\<close>

theorem handleLoad_rejects_bad_file:
  assumes "f = Malformed \<or> (f = Document document \<and> \<not> is_save_format document \<and> \<not> is_raw_state document)"
  shows "ecosystem (handleLoad fetch f st) = ecosystem st
     \<and> events (handleLoad fetch f st) = events st
     \<and> narration (handleLoad fetch f st) = narration st
     \<and> warnings (handleLoad fetch f st) = warnings st
     \<and> error (handleLoad fetch f st)
         = Some (Lit ''Failed to load: '' #
             (if f = Malformed then [Lit ''Invalid JSON file'']
              else if document = JNull then errorMessage (null_read ''version'')
              else [Lit ''Invalid save file format - missing required data'']))"
proof -
  let ?st = "st\<lparr>isLoading := True, error := None\<rparr>"
  let ?e = "if f = Malformed then Error [Lit ''Invalid JSON file'']
            else if document = JNull then null_read ''version''
            else Error [Lit ''Invalid save file format - missing required data'']"
  have "load_try fetch f ?st = (Some ?e, ?st)"
  proof (cases "f = Malformed")
    case True
    then show ?thesis by (simp add: load_try_def)
  next
    case False
    with assms have f: "f = Document document" and n: "\<not> is_save_format document" "\<not> is_raw_state document"
      by auto
    have "ecosystemToLoad document = Inl ?e"
      using n False by (simp add: ecosystemToLoad_def)
    then show ?thesis unfolding f by (rule load_try_format_error)
  qed
  then have "handleLoad fetch f st
      = st\<lparr>isLoading := False, error := Some (Lit ''Failed to load: '' # errorMessage ?e)\<rparr>"
    by (rule handleLoad_failure)
  then show ?thesis by (simp add: null_read_def)
qed

theorem handleLoad_rejects_bad_file_witness:
  "ecosystem (handleLoad meadow_backend Malformed saved_meadow) = Some (JSON_state meadow)
   \<and> error (handleLoad meadow_backend Malformed saved_meadow)
       = Some [Lit ''Failed to load: '', Lit ''Invalid JSON file'']
   \<and> \<not> is_save_format empty_file \<and> \<not> is_raw_state empty_file
   \<and> ecosystem (handleLoad meadow_backend (Document empty_file) saved_meadow)
       = Some (JSON_state meadow)
   \<and> error (handleLoad meadow_backend (Document empty_file) saved_meadow)
       = Some [Lit ''Failed to load: '', Lit ''Invalid save file format - missing required data'']"
proof -
  have e: "\<not> is_save_format empty_file" "\<not> is_raw_state empty_file" "empty_file \<noteq> JNull"
    by (simp_all add: empty_file_def is_save_format_def is_raw_state_def)
  have c: "ecosystem saved_meadow = Some (JSON_state meadow)"
    by (simp add: saved_meadow_def)
  have m: "ecosystem (handleLoad meadow_backend Malformed saved_meadow) = ecosystem saved_meadow
      \<and> error (handleLoad meadow_backend Malformed saved_meadow)
       = Some [Lit ''Failed to load: '', Lit ''Invalid JSON file'']"
    using handleLoad_rejects_bad_file [of Malformed empty_file meadow_backend saved_meadow]
    by simp
  have d: "ecosystem (handleLoad meadow_backend (Document empty_file) saved_meadow)
       = ecosystem saved_meadow
      \<and> error (handleLoad meadow_backend (Document empty_file) saved_meadow)
       = Some [Lit ''Failed to load: '', Lit ''Invalid save file format - missing required data'']"
    using handleLoad_rejects_bad_file [of "Document empty_file" empty_file meadow_backend saved_meadow]
      e by simp
  show ?thesis using e(1,2) c m d by simp
qed

text \<open>
  Claim C4. When the load request fails (the fetch rejects, the response is not ok, or its
  body cannot be read), \<open>loadEcosystem\<close> throws; the error carries the detail sent by the
  server when there is one; and \<open>handleLoad\<close> keeps the ecosystem, the events, the narration
  and the warnings, and shows the message.
\<close>

theorem load_request_failure:
  assumes "fetch (load_request state) = Rejected e0
     \<or> (fetch (load_request state) = Resolved r \<and> (\<not> ok r \<or> json_result r = Inl e1))"
  shows "\<exists>err. loadEcosystem fetch state = Inl err
     \<and> (\<forall>errorData detail. fetch (load_request state) = Resolved r \<and> \<not> ok r
           \<and> json_result r = Inr errorData \<and> property errorData ''detail'' = Some (JStr detail)
           \<and> detail \<noteq> [] \<longrightarrow> err = Error [Lit detail])
     \<and> (\<forall>document st. ecosystemToLoad document = Inr state \<longrightarrow>
           ecosystem (handleLoad fetch (Document document) st) = ecosystem st
           \<and> events (handleLoad fetch (Document document) st) = events st
           \<and> narration (handleLoad fetch (Document document) st) = narration st
           \<and> warnings (handleLoad fetch (Document document) st) = warnings st
           \<and> error (handleLoad fetch (Document document) st)
               = Some (Lit ''Failed to load: '' # errorMessage err))"
proof -
  obtain err where f: "loadEcosystem fetch state = Inl err"
    using loadEcosystem_fails [of fetch state e0 r e1] assms by blast
  have d: "\<forall>errorData detail. fetch (load_request state) = Resolved r \<and> \<not> ok r
           \<and> json_result r = Inr errorData \<and> property errorData ''detail'' = Some (JStr detail)
           \<and> detail \<noteq> [] \<longrightarrow> err = Error [Lit detail]"
    using f loadEcosystem_detail [of fetch state r] by fastforce
  have h: "\<forall>document st. ecosystemToLoad document = Inr state \<longrightarrow>
           ecosystem (handleLoad fetch (Document document) st) = ecosystem st
           \<and> events (handleLoad fetch (Document document) st) = events st
           \<and> narration (handleLoad fetch (Document document) st) = narration st
           \<and> warnings (handleLoad fetch (Document document) st) = warnings st
           \<and> error (handleLoad fetch (Document document) st)
               = Some (Lit ''Failed to load: '' # errorMessage err)"
  proof (intro allI impI)
    fix document st assume e: "ecosystemToLoad document = Inr state"
    have "handleLoad fetch (Document document) st
      = st\<lparr>isLoading := False, error := Some (Lit ''Failed to load: '' # errorMessage err)\<rparr>"
      by (rule handleLoad_failure) (rule load_try_server_error [OF e f])
    then show "ecosystem (handleLoad fetch (Document document) st) = ecosystem st
           \<and> events (handleLoad fetch (Document document) st) = events st
           \<and> narration (handleLoad fetch (Document document) st) = narration st
           \<and> warnings (handleLoad fetch (Document document) st) = warnings st
           \<and> error (handleLoad fetch (Document document) st)
               = Some (Lit ''Failed to load: '' # errorMessage err)"
      by simp
  qed
  show ?thesis using f d h by blast
qed

theorem load_request_failure_witness:
  "refusing_backend (load_request raw_file)
     = Resolved (Response 400 (Inr (JObj [(''detail'', JStr ''producer with prey'')])))
   \<and> \<not> ok (Response 400 (Inr (JObj [(''detail'', JStr ''producer with prey'')])))
   \<and> loadEcosystem refusing_backend raw_file = Inl (Error [Lit ''producer with prey''])
   \<and> ecosystemToLoad raw_file = Inr raw_file
   \<and> ecosystem (handleLoad refusing_backend (Document raw_file) saved_meadow)
       = Some (JSON_state meadow)
   \<and> error (handleLoad refusing_backend (Document raw_file) saved_meadow)
       = Some [Lit ''Failed to load: '', Lit ''producer with prey'']"
proof -
  let ?r = "Response 400 (Inr (JObj [(''detail'', JStr ''producer with prey'')]))"
  have a: "refusing_backend (load_request raw_file) = Resolved ?r"
    by (simp add: refusing_backend_def)
  have b: "\<not> ok ?r" by (simp add: ok_def)
  have c: "json_result ?r = Inr (JObj [(''detail'', JStr ''producer with prey'')])"
      "property (JObj [(''detail'', JStr ''producer with prey'')]) ''detail''
         = Some (JStr ''producer with prey'')"
      "''producer with prey'' \<noteq> []"
    by simp_all
  have d: "ecosystemToLoad raw_file = Inr raw_file"
    by (simp add: ecosystemToLoad_def raw_file_def is_save_format_def is_raw_state_def)
  have e: "ecosystem saved_meadow = Some (JSON_state meadow)"
    by (simp add: saved_meadow_def)
  obtain err where err: "loadEcosystem refusing_backend raw_file = Inl err"
      "\<forall>errorData detail. refusing_backend (load_request raw_file) = Resolved ?r \<and> \<not> ok ?r
           \<and> json_result ?r = Inr errorData \<and> property errorData ''detail'' = Some (JStr detail)
           \<and> detail \<noteq> [] \<longrightarrow> err = Error [Lit detail]"
      "\<forall>document st. ecosystemToLoad document = Inr raw_file \<longrightarrow>
           ecosystem (handleLoad refusing_backend (Document document) st) = ecosystem st
           \<and> error (handleLoad refusing_backend (Document document) st)
               = Some (Lit ''Failed to load: '' # errorMessage err)"
    using load_request_failure [of refusing_backend raw_file undefined ?r undefined] a b
    by blast
  have v: "err = Error [Lit ''producer with prey'']"
    using err(2) a b c by blast
  have "ecosystem (handleLoad refusing_backend (Document raw_file) saved_meadow)
          = ecosystem saved_meadow
       \<and> error (handleLoad refusing_backend (Document raw_file) saved_meadow)
          = Some (Lit ''Failed to load: '' # errorMessage err)"
    using err(3) d by blast
  then show ?thesis using a b d e err(1) unfolding v by simp
qed

text \<open>
  Claim C5. When there is an ecosystem, \<open>handleSave\<close> writes the document with the fields
  \<open>version\<close> (1), \<open>savedAt\<close> (an ISO-8601 timestamp), \<open>ecosystem\<close>, \<open>events\<close> and \<open>narration\<close>,
  in this order, holding the current values of the state.
\<close>

theorem handleSave_document:
  assumes "ecosystem st = Some eco" and "truthy eco"
  shows "map_option contents (handleSave now st)
         = Some (JSON_object
             [(''version'', Some (JNum 1)), (''savedAt'', Some (JStr (toISOString now))),
              (''ecosystem'', Some eco), (''events'', events st), (''narration'', narration st)])
     \<and> iso8601 (toISOString now)
     \<and> (\<forall>evs nar. events st = Some evs \<and> narration st = Some nar \<longrightarrow>
           map_option contents (handleSave now st)
             = Some (JObj [(''version'', JNum 1), (''savedAt'', JStr (toISOString now)),
                           (''ecosystem'', eco), (''events'', evs), (''narration'', nar)]))"
proof -
  have a: "map_option contents (handleSave now st)
      = Some (JSON_object
          [(''version'', Some (JNum 1)), (''savedAt'', Some (JStr (toISOString now))),
           (''ecosystem'', Some eco), (''events'', events st), (''narration'', narration st)])"
    using assms by (simp add: handleSave_def)
  have b: "\<forall>evs nar. events st = Some evs \<and> narration st = Some nar \<longrightarrow>
      JSON_object
          [(''version'', Some (JNum 1)), (''savedAt'', Some (JStr (toISOString now))),
           (''ecosystem'', Some eco), (''events'', events st), (''narration'', narration st)]
      = JObj [(''version'', JNum 1), (''savedAt'', JStr (toISOString now)),
                           (''ecosystem'', eco), (''events'', evs), (''narration'', nar)]"
    by (simp add: JSON_object_def List.map_filter_simps)
  show ?thesis using a b iso8601_toISOString [of now] by metis
qed

lemma pad_numeral: "pad (numeral n) k = pad (pred_numeral n) (k div 10) @ [digit k]"
  by (simp only: numeral_eq_Suc [of n] pad.simps)

lemma toISOString_noon: "toISOString noon = ''2026-01-15T12:30:45.123Z''"
  by (simp add: toISOString_def noon_def pad_numeral digit_def)

theorem handleSave_document_witness:
  "ecosystem saved_meadow = Some (JSON_state meadow) \<and> truthy (JSON_state meadow)
   \<and> events saved_meadow = Some (JArr []) \<and> narration saved_meadow = Some (JStr [])
   \<and> iso8601 ''2026-01-15T12:30:45.123Z''
   \<and> map_option contents (handleSave noon saved_meadow)
       = Some (JObj [(''version'', JNum 1), (''savedAt'', JStr ''2026-01-15T12:30:45.123Z''),
                     (''ecosystem'', JSON_state meadow), (''events'', JArr []),
                     (''narration'', JStr [])])"
proof -
  have a: "ecosystem saved_meadow = Some (JSON_state meadow)"
      "events saved_meadow = Some (JArr [])" "narration saved_meadow = Some (JStr [])"
    by (simp_all add: saved_meadow_def initial_def)
  have b: "truthy (JSON_state meadow)" by simp
  show ?thesis
    using a b handleSave_document [of saved_meadow "JSON_state meadow" noon]
    unfolding toISOString_noon by blast
qed

subsection \<open>Advancing a turn\<close>

lemma handleAdvance_details:
  assumes "handleAdvance selectedTile interventionType selectedOption = Some iv"
  shows "\<exists>d. details iv = Some d"
proof -
  have "details iv \<noteq> None"
    using assms unfolding handleAdvance_def
    by (simp split: if_splits) auto
  then show ?thesis by blast
qed

text \<open>
  Claim C6, as worded, fails: the intervention that the control panel sends for the removal
  of a species has the fields \<open>action\<close> and \<open>details\<close>, not \<open>kind\<close> and \<open>payload\<close>.
\<close>

theorem intervention_shape_counterexample:
  "body (advance_request (handleAdvance None ''remove_species'' ''Wolf''))
     = Some (JObj [(''action'', JStr ''Remove all Wolf from the ecosystem''), (''details'', JStr [])])
   \<and> \<not> kind_payload_shape
        (JObj [(''action'', JStr ''Remove all Wolf from the ecosystem''), (''details'', JStr [])])"
  by (simp add: advance_request_def handleAdvance_def JSON_intervention_def JSON_object_def
      List.map_filter_simps kind_payload_shape_def)

text \<open>
  Claim C6, amended. The intervention sent to the advance operation is an object with the
  string \<open>action\<close> and, when given, the string \<open>details\<close>; it never has the shape with \<open>kind\<close>
  and \<open>payload\<close>; the control panel always gives \<open>details\<close>.
\<close>

theorem intervention_request_shape:
  "body (advance_request (Some iv))
     = Some (JObj ((''action'', JStr (action iv)) #
          (case details iv of None \<Rightarrow> [] | Some d \<Rightarrow> [(''details'', JStr d)])))
   \<and> \<not> kind_payload_shape (JSON_intervention iv)
   \<and> (handleAdvance selectedTile interventionType selectedOption = Some iv \<longrightarrow>
        (\<exists>d. details iv = Some d
           \<and> body (advance_request (Some iv))
               = Some (JObj [(''action'', JStr (action iv)), (''details'', JStr d)])))"
proof -
  have a: "JSON_intervention iv = JObj ((''action'', JStr (action iv)) #
          (case details iv of None \<Rightarrow> [] | Some d \<Rightarrow> [(''details'', JStr d)]))"
    by (cases "details iv") (simp_all add: JSON_intervention_def JSON_object_def List.map_filter_simps)
  have b: "\<not> kind_payload_shape (JSON_intervention iv)"
    unfolding a by (cases "details iv") (simp_all add: kind_payload_shape_def)
  have c: "handleAdvance selectedTile interventionType selectedOption = Some iv \<longrightarrow>
        (\<exists>d. details iv = Some d)"
    by (rule impI) (rule handleAdvance_details)
  have d: "body (advance_request (Some iv)) = Some (JSON_intervention iv)"
    by (simp add: advance_request_def)
  show ?thesis unfolding d using b c unfolding a by auto
qed

theorem intervention_request_shape_witness:
  "handleAdvance (Some (2, 3)) ''introduce_species'' ''Wolf'' = Some wolf_intervention
   \<and> body (advance_request (Some wolf_intervention))
       = Some (JObj [(''action'', JStr ''Introduce Wolf to the ecosystem''),
                     (''details'', JStr ''at tile (2, 3)'')])
   \<and> \<not> kind_payload_shape (JSON_intervention wolf_intervention)"
proof -
  have "show_int 2 = ''2''" "show_int 3 = ''3''"
    by (simp_all add: show_int_def show_nat.simps digit_def)
  then have a: "handleAdvance (Some (2, 3)) ''introduce_species'' ''Wolf'' = Some wolf_intervention"
    by (simp add: handleAdvance_def wolf_intervention_def)
  have b: "action wolf_intervention = ''Introduce Wolf to the ecosystem''"
      "details wolf_intervention = Some ''at tile (2, 3)''"
    by (simp_all add: wolf_intervention_def)
  obtain d where d: "details wolf_intervention = Some d"
      "body (advance_request (Some wolf_intervention))
         = Some (JObj [(''action'', JStr (action wolf_intervention)), (''details'', JStr d)])"
    using intervention_request_shape
      [of wolf_intervention "Some (2, 3)" "''introduce_species''" "''Wolf''"] a
    by blast
  have c: "\<not> kind_payload_shape (JSON_intervention wolf_intervention)"
    using intervention_request_shape
      [of wolf_intervention "Some (2, 3)" "''introduce_species''" "''Wolf''"]
    by blast
  show ?thesis using a b c d by simp
qed

lemma advance_try_cases:
  "advance_try fetch intervention st =
    (case advanceTurn fetch intervention of
       Inl e \<Rightarrow> (Some e, st)
     | Inr result \<Rightarrow>
         if result = JNull then (Some (null_read ''new_state''), st)
         else (None, st\<lparr>ecosystem := property result ''new_state'', events := property result ''events'',
                         narration := property result ''narration'',
                         warnings := property result ''warnings''\<rparr>))"
  by (simp add: advance_try_def get_def split: sum.splits)

text \<open>
  Claim C7. After \<open>handleAdvanceTurn\<close>, either the ecosystem, the events, the narration and the
  warnings are all those of the result and there is no error, or all four are as before; in
  the second case, when there was an ecosystem, the error message is set. The first case is
  the one of a result that arrived, with an ecosystem in the state.
\<close>

theorem handleAdvanceTurn_atomic:
  "((\<exists>result. advanceTurn fetch intervention = Inr result
       \<and> ecosystem (handleAdvanceTurn fetch intervention st) = property result ''new_state''
       \<and> events (handleAdvanceTurn fetch intervention st) = property result ''events''
       \<and> narration (handleAdvanceTurn fetch intervention st) = property result ''narration''
       \<and> warnings (handleAdvanceTurn fetch intervention st) = property result ''warnings''
       \<and> error (handleAdvanceTurn fetch intervention st) = None)
    \<or> (ecosystem (handleAdvanceTurn fetch intervention st) = ecosystem st
       \<and> events (handleAdvanceTurn fetch intervention st) = events st
       \<and> narration (handleAdvanceTurn fetch intervention st) = narration st
       \<and> warnings (handleAdvanceTurn fetch intervention st) = warnings st
       \<and> (truthy_opt (ecosystem st) \<longrightarrow>
            error (handleAdvanceTurn fetch intervention st)
              = Some [Lit ''Failed to advance simulation. Check the backend logs.''])))
   \<and> (\<forall>result. truthy_opt (ecosystem st) \<and> advanceTurn fetch intervention = Inr result
          \<and> result \<noteq> JNull \<longrightarrow>
        ecosystem (handleAdvanceTurn fetch intervention st) = property result ''new_state''
        \<and> events (handleAdvanceTurn fetch intervention st) = property result ''events''
        \<and> narration (handleAdvanceTurn fetch intervention st) = property result ''narration''
        \<and> warnings (handleAdvanceTurn fetch intervention st) = property result ''warnings''
        \<and> error (handleAdvanceTurn fetch intervention st) = None)"
proof (cases "truthy_opt (ecosystem st)")
  case False
  then have "handleAdvanceTurn fetch intervention st = st"
    by (simp add: handleAdvanceTurn_def)
  with False show ?thesis by simp
next
  case True
  show ?thesis
  proof (cases "advanceTurn fetch intervention")
    case (Inl e)
    with True show ?thesis
      by (simp add: handleAdvanceTurn_def advance_try_cases)
  next
    case (Inr result)
    with True show ?thesis
      by (cases "result = JNull") (simp_all add: handleAdvanceTurn_def advance_try_cases)
  qed
qed

theorem handleAdvanceTurn_atomic_witness:
  "truthy_opt (ecosystem saved_meadow)
   \<and> advanceTurn offline None = Inl (TypeError [Lit ''Failed to fetch''])
   \<and> ecosystem (handleAdvanceTurn offline None saved_meadow) = Some (JSON_state meadow)
   \<and> events (handleAdvanceTurn offline None saved_meadow) = Some (JArr [])
   \<and> error (handleAdvanceTurn offline None saved_meadow)
       = Some [Lit ''Failed to advance simulation. Check the backend logs.'']
   \<and> advanceTurn advancing_backend None = Inr quiet_turn \<and> quiet_turn \<noteq> JNull
   \<and> ecosystem (handleAdvanceTurn advancing_backend None saved_meadow)
       = Some (JSON_state meadow)
   \<and> narration (handleAdvanceTurn advancing_backend None saved_meadow)
       = Some (JStr ''A quiet turn.'')
   \<and> error (handleAdvanceTurn advancing_backend None saved_meadow) = None"
proof -
  have a: "truthy_opt (ecosystem saved_meadow)"
      "ecosystem saved_meadow = Some (JSON_state meadow)"
      "events saved_meadow = Some (JArr [])"
    by (simp_all add: saved_meadow_def initial_def)
  have b: "advanceTurn offline None = Inl (TypeError [Lit ''Failed to fetch''])"
    by (simp add: advanceTurn_def offline_def)
  have c: "advanceTurn advancing_backend None = Inr quiet_turn" "quiet_turn \<noteq> JNull"
    by (simp_all add: advanceTurn_def advancing_backend_def ok_def quiet_turn_def)
  have q: "property quiet_turn ''narration'' = Some (JStr ''A quiet turn.'')"
      "property quiet_turn ''new_state'' = Some (JSON_state meadow)"
    by (simp_all add: quiet_turn_def)
  have f: "ecosystem (handleAdvanceTurn offline None saved_meadow) = ecosystem saved_meadow
     \<and> events (handleAdvanceTurn offline None saved_meadow) = events saved_meadow
     \<and> error (handleAdvanceTurn offline None saved_meadow)
       = Some [Lit ''Failed to advance simulation. Check the backend logs.'']"
    using handleAdvanceTurn_atomic [of offline None saved_meadow] a(1) b by auto
  have g: "ecosystem (handleAdvanceTurn advancing_backend None saved_meadow)
       = property quiet_turn ''new_state''
     \<and> narration (handleAdvanceTurn advancing_backend None saved_meadow)
       = property quiet_turn ''narration''
     \<and> error (handleAdvanceTurn advancing_backend None saved_meadow) = None"
    using handleAdvanceTurn_atomic [of advancing_backend None saved_meadow] a(1) c by blast
  show ?thesis using a b c f g q by simp
qed

subsection \<open>SpeciesPanel\<close>

lemma mset_sortedSpecies: "mset (sortedSpecies sps) = mset sps"
  by (simp add: sortedSpecies_def)

lemma species_icon_object: "(species_icon n = ObjectPrototype) = (n = ''__proto__'')"
  by (simp add: species_icon_def SPECIES_ICONS_def split: option.splits)

lemma render_rows_SpeciesPanel:
  "render_rows (SpeciesPanel sps)
     = (if \<exists>s \<in> set sps. name s = ''__proto__''
        then Inl (Error [Lit (''Objects are not valid as a React child (found: object with keys {}). ''
                @ ''If you meant to render a collection of children, use an array instead.'')])
        else Inr (SpeciesPanel sps))"
proof -
  have "(\<exists>r \<in> set (SpeciesPanel sps). icon r = ObjectPrototype)
      = (\<exists>s \<in> set sps. name s = ''__proto__'')"
    by (auto simp: SpeciesPanel_def sortedSpecies_def species_entry_def species_icon_object)
  then show ?thesis by (simp add: render_rows_def)
qed

text \<open>
  Where no species is named \<open>__proto__\<close>, the panel shows exactly one row for every species
  of the list, extinct or not: the rows are the images of the species, with their
  multiplicities, each keyed by the name of its species, and a species whose population is 0
  has a row, labelled EXTINCT.
\<close>

lemma SpeciesPanel_rows:
  assumes "\<forall>s \<in> set sps. name s \<noteq> ''__proto__''"
  shows "\<exists>rows. render_rows (SpeciesPanel sps) = Inr rows
     \<and> mset rows = image_mset species_entry (mset sps)
     \<and> length rows = length sps
     \<and> (\<forall>s \<in> set sps. key (species_entry s) = name s
          \<and> species_entry s \<in> set rows
          \<and> (population s = 0 \<longrightarrow> label (species_entry s) = [Lit ''EXTINCT'']))"
proof -
  have r: "render_rows (SpeciesPanel sps) = Inr (SpeciesPanel sps)"
    using assms by (simp add: render_rows_SpeciesPanel)
  have m: "mset (SpeciesPanel sps) = image_mset species_entry (mset sps)"
    by (simp add: SpeciesPanel_def mset_sortedSpecies)
  have l: "length (SpeciesPanel sps) = length sps"
    by (simp add: SpeciesPanel_def sortedSpecies_def)
  have "set (SpeciesPanel sps) = species_entry ` set sps"
    by (simp add: SpeciesPanel_def sortedSpecies_def)
  then have e: "\<forall>s \<in> set sps. species_entry s \<in> set (SpeciesPanel sps)"
    by blast
  have k: "\<forall>s \<in> set sps. key (species_entry s) = name s
      \<and> (population s = 0 \<longrightarrow> label (species_entry s) = [Lit ''EXTINCT''])"
    by (simp add: species_entry_def)
  show ?thesis using r m l e k by blast
qed

lemma SpeciesPanel_rows_example:
  "render_rows (SpeciesPanel [fox0, rabbit9, grass1000])
     = Inr [species_entry grass1000, species_entry rabbit9, species_entry fox0]
   \<and> label (species_entry fox0) = [Lit ''EXTINCT'']
   \<and> icon (species_entry fox0) = Emoji 0x1F98A"
proof -
  have "SpeciesPanel [fox0, rabbit9, grass1000]
      = [species_entry grass1000, species_entry rabbit9, species_entry fox0]"
    by (simp add: SpeciesPanel_def sortedSpecies_def fox0_def rabbit9_def grass1000_def)
  moreover have "\<forall>s \<in> set [fox0, rabbit9, grass1000]. name s \<noteq> ''__proto__''"
    by (simp add: fox0_def rabbit9_def grass1000_def)
  ultimately show ?thesis
    using render_rows_SpeciesPanel [of "[fox0, rabbit9, grass1000]"]
    by (simp add: species_entry_def species_icon_def SPECIES_ICONS_def fox0_def)
qed

text \<open>
  Claim C8 fails on the code for a species named \<open>__proto__\<close>: its icon is
  \<open>Object.prototype\<close>, the render throws, and no row is shown, neither the one of the extinct
  species nor the one of the grass beside it. The claim asks for one entry for each.
\<close>

theorem SpeciesPanel_proto_not_shown:
  "population proto0 = 0
   \<and> icon (species_entry proto0) = ObjectPrototype
   \<and> render_rows (SpeciesPanel [grass1000, proto0])
       = Inl (Error [Lit (''Objects are not valid as a React child (found: object with keys {}). ''
                @ ''If you meant to render a collection of children, use an array instead.'')])"
proof -
  have n: "name proto0 = ''__proto__''" "population proto0 = 0"
    by (simp_all add: proto0_def)
  have i: "icon (species_entry proto0) = ObjectPrototype"
    by (simp add: species_entry_def n species_icon_object)
  show ?thesis
    using n i by (simp add: render_rows_SpeciesPanel)
qed

subsection \<open>ecosystemHealth\<close>







subsection \<open>SpeciesMarkers\<close>

lemma place_loop_length:
  "placed \<le> n \<Longrightarrow>
   length (fst (place_loop img random ts tp n col sz attempts placed (result, i)))
     \<le> length result + nat (n - placed)"
proof (induction img random ts tp n col sz attempts placed "(result, i)"
    arbitrary: result i rule: place_loop.induct)
  case (1 img random ts tp n col sz attempts placed result i)
  show ?case
  proof (cases "placed < n \<and> attempts < n * 20")
    case False
    show ?thesis
      apply (subst place_loop.simps)
      using False by auto
  next
    case True
    show ?thesis
    proof (cases "case getElevationAt img (random i) (random (i + 1)) of None \<Rightarrow> False | Some e \<Rightarrow> e < clipThreshold")
      case sea: True
      have "length (fst (place_loop img random ts tp n col sz (attempts + 1) placed (result, i + 2)))
            \<le> length result + nat (n - placed)"
        using "1.hyps"(1) [OF True refl refl refl sea] "1.prems" by simp
      then show ?thesis
        apply (subst place_loop.simps)
        using True sea by (simp add: Let_def)
    next
      case land: False
      let ?m = "\<lparr> position = ((random i - 0.5) * ts + fst tp,
                   map_option (\<lambda>e. fst (snd tp) + e * 1.0 + 0.1) (getElevationAt img (random i) (random (i + 1))),
                   (random (i + 1) - 0.5) * ts + snd (snd tp)), color = col, size' = sz \<rparr>"
      have "length (fst (place_loop img random ts tp n col sz (attempts + 1) (placed + 1) (result @ [?m], i + 2)))
            \<le> length (result @ [?m]) + nat (n - (placed + 1))"
        using "1.hyps"(2) [OF True refl refl refl land refl refl refl] True by simp
      moreover have "nat (n - placed) = Suc (nat (n - (placed + 1)))"
        using True by linarith
      ultimately have "length (fst (place_loop img random ts tp n col sz (attempts + 1) (placed + 1) (result @ [?m], i + 2)))
            \<le> length result + nat (n - placed)"
        by simp
      then show ?thesis
        apply (subst place_loop.simps)
        using True land by (simp add: Let_def)
    qed
  qed
qed

lemma place_loop_set:
  "set (fst (place_loop img random ts tp n col sz attempts placed (result, i)))
     \<subseteq> set result \<union> {m. color m = col \<and> size' m = sz}"
proof (induction img random ts tp n col sz attempts placed "(result, i)"
    arbitrary: result i rule: place_loop.induct)
  case (1 img random ts tp n col sz attempts placed result i)
  show ?case
  proof (cases "placed < n \<and> attempts < n * 20")
    case False
    show ?thesis
      apply (subst place_loop.simps)
      using False by auto
  next
    case True
    show ?thesis
    proof (cases "case getElevationAt img (random i) (random (i + 1)) of None \<Rightarrow> False | Some e \<Rightarrow> e < clipThreshold")
      case sea: True
      have "set (fst (place_loop img random ts tp n col sz (attempts + 1) placed (result, i + 2)))
            \<subseteq> set result \<union> {m. color m = col \<and> size' m = sz}"
        using "1.hyps"(1) [OF True refl refl refl sea] by simp
      then show ?thesis
        apply (subst place_loop.simps)
        using True sea by (simp add: Let_def)
    next
      case land: False
      let ?m = "\<lparr> position = ((random i - 0.5) * ts + fst tp,
                   map_option (\<lambda>e. fst (snd tp) + e * 1.0 + 0.1) (getElevationAt img (random i) (random (i + 1))),
                   (random (i + 1) - 0.5) * ts + snd (snd tp)), color = col, size' = sz \<rparr>"
      have "set (fst (place_loop img random ts tp n col sz (attempts + 1) (placed + 1) (result @ [?m], i + 2)))
            \<subseteq> set (result @ [?m]) \<union> {m. color m = col \<and> size' m = sz}"
        using "1.hyps"(2) [OF True refl refl refl land refl refl refl] by simp
      then have "set (fst (place_loop img random ts tp n col sz (attempts + 1) (placed + 1) (result @ [?m], i + 2)))
            \<subseteq> set result \<union> {m. color m = col \<and> size' m = sz}"
        by auto
      then show ?thesis
        apply (subst place_loop.simps)
        using True land by (simp add: Let_def)
    qed
  qed
qed

lemma dotCount_range: "3 \<le> dotCount s \<and> dotCount s \<le> 50"
  by (simp add: dotCount_def)

lemma place_dots_length:
  "length (fst (place_dots img random ts tp (result, i) s)) \<le> length result + nat (dotCount s)"
  using place_loop_length [of 0 "dotCount s" img random ts tp "DIET_COLORS (diet s)"
      "0.15 + log 10 (population s + 1) * 0.05" 0 result i] dotCount_range [of s]
  by (simp add: place_dots_def)

lemma foldl_place_dots_length:
  "length (fst (foldl (place_dots img random ts tp) acc xs)) \<le> length (fst acc) + 50 * length xs"
proof (induction xs arbitrary: acc)
  case Nil
  show ?case by simp
next
  case (Cons s xs)
  obtain result i where acc: "acc = (result, i)" by (cases acc)
  have "length (fst (place_dots img random ts tp acc s)) \<le> length (fst acc) + 50"
    using place_dots_length [of img random ts tp result i s] dotCount_range [of s]
    unfolding acc by auto
  moreover have "length (fst (foldl (place_dots img random ts tp) (place_dots img random ts tp acc s) xs))
      \<le> length (fst (place_dots img random ts tp acc s)) + 50 * length xs"
    by (rule Cons.IH)
  ultimately show ?case by simp
qed

lemma foldl_place_dots_set:
  "set (fst (foldl (place_dots img random ts tp) acc xs))
     \<subseteq> set (fst acc) \<union> {m. \<exists>s \<in> set xs. color m = DIET_COLORS (diet s)
            \<and> size' m = 0.15 + log 10 (population s + 1) * 0.05}"
proof (induction xs arbitrary: acc)
  case Nil
  show ?case by simp
next
  case (Cons s xs)
  obtain result i where acc: "acc = (result, i)" by (cases acc)
  have "set (fst (place_dots img random ts tp acc s))
      \<subseteq> set (fst acc) \<union> {m. color m = DIET_COLORS (diet s)
            \<and> size' m = 0.15 + log 10 (population s + 1) * 0.05}"
    unfolding acc place_dots_def using place_loop_set [where result = result] by simp
  with Cons.IH [of "place_dots img random ts tp acc s"] show ?case
    by auto
qed

text \<open>
  Claim C10. The number of dots of a species is at most 50, the placement loop adds at most
  that number of markers for it, and markers are made for the species with a positive
  population only: there are at most 50 markers for each of them, and every marker has the
  colour and the size computed from one of them.
\<close>

theorem SpeciesMarkers_bound:
  "dotCount s \<le> 50
   \<and> length (fst (place_dots img random ts tp (result, i) s)) \<le> length result + nat (dotCount s)
   \<and> length (markers img random ts tp sps)
        \<le> 50 * length (filter (\<lambda>s. population s > 0) sps)
   \<and> (\<forall>m \<in> set (markers img random ts tp sps).
        \<exists>s \<in> set sps. population s > 0 \<and> color m = DIET_COLORS (diet s)
          \<and> size' m = 0.15 + log 10 (population s + 1) * 0.05)"
proof -
  have a: "length (markers img random ts tp sps)
        \<le> 50 * length (filter (\<lambda>s. population s > 0) sps)"
    using foldl_place_dots_length [of img random ts tp "([], 0)" "filter (\<lambda>s. population s > 0) sps"]
    by (simp add: markers_def)
  have b: "\<forall>m \<in> set (markers img random ts tp sps).
        \<exists>s \<in> set sps. population s > 0 \<and> color m = DIET_COLORS (diet s)
          \<and> size' m = 0.15 + log 10 (population s + 1) * 0.05"
    using foldl_place_dots_set [of img random ts tp "([], 0)" "filter (\<lambda>s. population s > 0) sps"]
    by (auto simp: markers_def)
  show ?thesis using a b dotCount_range [of s] place_dots_length [of img random ts tp result i s]
    by blast
qed

lemma dotCount_rabbit9: "dotCount rabbit9 = 10"
  by (simp add: dotCount_def rabbit9_def)

lemma elev_white: "getElevationAt white_pixel (1/2) (1/2) = Some 1"
  by (simp add: getElevationAt_def white_pixel_def)

lemma white_pixel_sel:
  "elevationData white_pixel = Some [255, 255, 255, 255]" "width white_pixel = 1"
  by (simp_all add: white_pixel_def)

lemma markers_rabbit9:
  "length (markers white_pixel (\<lambda>k. 1/2) 64 (0, -3, 0) [rabbit9]) = 10"
proof -
  have "population rabbit9 > 0" by (simp add: rabbit9_def)
  then show ?thesis
    by (simp add: markers_def place_dots_def dotCount_rabbit9 white_pixel_sel
        place_loop.simps elev_white clipThreshold_def Let_def)
qed

theorem SpeciesMarkers_bound_witness:
  "markers white_pixel (\<lambda>k. 1/2) 64 (0, -3, 0) [rabbit9] \<noteq> []
   \<and> hd (markers white_pixel (\<lambda>k. 1/2) 64 (0, -3, 0) [rabbit9])
       \<in> set (markers white_pixel (\<lambda>k. 1/2) 64 (0, -3, 0) [rabbit9])
   \<and> color (hd (markers white_pixel (\<lambda>k. 1/2) 64 (0, -3, 0) [rabbit9])) = ''#00BFFF''
   \<and> length (markers white_pixel (\<lambda>k. 1/2) 64 (0, -3, 0) [rabbit9]) \<le> 50"
proof -
  let ?ms = "markers white_pixel (\<lambda>k. 1/2) 64 (0, -3, 0) [rabbit9]"
  have ne: "?ms \<noteq> []" using markers_rabbit9 by auto
  then have "hd ?ms \<in> set ?ms" by simp
  moreover have "DIET_COLORS (diet rabbit9) = ''#00BFFF''" by (simp add: rabbit9_def)
  moreover have "0 < population rabbit9" by (simp add: rabbit9_def)
  ultimately show ?thesis
    using ne SpeciesMarkers_bound [of rabbit9 white_pixel "\<lambda>k. 1/2" 64 "(0, -3, 0)" "[]" 0 "[rabbit9]"]
    by auto
qed

end
